theory Spec2Isabelle
  imports Complex_Main "HOL-Library.Multiset"
begin

text \<open>
  A shallow embedding of the artwork lookup of AIOStreams: the ranking selector
  \<open>selectBestLogo\<close>, the identifier parsers, the logo service with its cache, the two
  Fanart.tv clients and the poster orchestrator, each function translated from its
  TypeScript source, followed by the properties proved of them.
\<close>

section \<open>JavaScript values\<close>

text \<open>
  The artwork code handles provider responses as untyped JSON (\<open>any\<close>), so the
  embedding starts from the JSON values themselves. A property read that finds nothing is
  \<open>undefined\<close>: a possibly undefined value is a \<open>json option\<close> with
  \<open>None\<close> for \<open>undefined\<close>.

  Numbers: a JSON number is a double, modelled by the rational it is, and the result of
  an arithmetic operation or of \<open>parseFloat\<close> by \<open>jsnum\<close>: a rational,
  one of the two infinities, or \<open>NaN\<close>. How the language reads a number from
  a string and prints one (\<open>parseFloat\<close>, \<open>ToNumber\<close>, \<open>ToString\<close>:
  the grammar of literals, white space, rounding to a double, overflow) is not defined
  here: these conversions are parameters of the model.
\<close>

datatype json =
    JNull
  | JBool bool
  | JNum rat
  | JStr string
  | JArr "json list"
  | JObj "(string \<times> json) list"

datatype jsnum = NaN | NInf | Fin rat | PInf

text \<open>What a \<open>throw\<close> carries. Every handler of the code treats all alike.\<close>

datatype exn = TypeError | Thrown string

text \<open>\<open>ToBoolean\<close>: the truthiness test of \<open>if (v)\<close>, \<open>!v\<close> and \<open>a || b\<close>.\<close>

fun truthy :: "json option \<Rightarrow> bool" where
  "truthy None = False"
| "truthy (Some JNull) = False"
| "truthy (Some (JBool b)) = b"
| "truthy (Some (JNum r)) = (r \<noteq> 0)"
| "truthy (Some (JStr s)) = (s \<noteq> [])"
| "truthy (Some (JArr xs)) = True"
| "truthy (Some (JObj kvs)) = True"

definition js_or :: "json option \<Rightarrow> json option \<Rightarrow> json option" where
  "js_or a b = (if truthy a then a else b)"

text \<open>
  \<open>v[k]\<close> and \<open>v.k\<close> for a property name \<open>k\<close> that is not an array index:
  reading a property of \<open>null\<close> throws a TypeError, an object (represented by the
  list of its properties, a key standing for its first binding) yields its own
  property or \<open>undefined\<close>, arrays and strings have
  \<open>length\<close>, and every other read is \<open>undefined\<close>. Members inherited from the
  prototypes are not data of the response and are not modelled.
\<close>

fun get_prop :: "json \<Rightarrow> string \<Rightarrow> exn + json option" where
  "get_prop JNull k = Inl TypeError"
| "get_prop (JObj kvs) k = Inr (map_of kvs k)"
| "get_prop (JArr xs) k = Inr (if k = ''length'' then Some (JNum (of_nat (length xs))) else None)"
| "get_prop (JStr s) k = Inr (if k = ''length'' then Some (JNum (of_nat (length s))) else None)"
| "get_prop (JBool b) k = Inr None"
| "get_prop (JNum r) k = Inr None"

text \<open>
  Subtraction. On two numbers it is the exact difference; the difference of two doubles
  as the language computes it is that difference rounded, which has the same sign (it is
  zero only for equal operands, and an overflow keeps the sign). The results of the
  comparators below are read by their sign only.
\<close>

fun js_sub :: "jsnum \<Rightarrow> jsnum \<Rightarrow> jsnum" where
  "js_sub NaN y = NaN"
| "js_sub x NaN = NaN"
| "js_sub PInf PInf = NaN"
| "js_sub NInf NInf = NaN"
| "js_sub PInf y = PInf"
| "js_sub NInf y = NInf"
| "js_sub (Fin a) PInf = NInf"
| "js_sub (Fin a) NInf = PInf"
| "js_sub (Fin a) (Fin b) = Fin (a - b)"

subsection \<open>The platform\<close>

text \<open>
  The HTTP wrapper \<open>makeRequest\<close> (\<open>./http\<close>) and the number conversions of the
  language are not part of the sources; they are parameters of the model. A response
  carries its status and what \<open>response.json()\<close> resolves to or throws;
  \<open>response.ok\<close> is a status from 200 to 299, as the Fetch standard defines it.
  \<open>ParseFloat\<close> is the built-in \<open>parseFloat\<close> on strings: the number of the
  longest prefix that is a decimal literal, after leading white space, as a double, or
  \<open>NaN\<close> when there is none. Nothing is assumed of it but what a statement says.
\<close>

record response =
  status :: int
  json_body :: "exn + json"

definition response_ok :: "response \<Rightarrow> bool" where
  "response_ok r = (200 \<le> status r \<and> status r \<le> 299)"

record platform =
  makeRequest :: "string \<Rightarrow> nat \<Rightarrow> (string \<times> string) list \<Rightarrow> bool \<Rightarrow> exn + response"
  NumberToString :: "rat \<Rightarrow> string"
  StringToNumber :: "string \<Rightarrow> jsnum"
  ParseFloat :: "string \<Rightarrow> jsnum"

fun join_comma :: "string list \<Rightarrow> string" where
  "join_comma [] = []"
| "join_comma [s] = s"
| "join_comma (s # t # ss) = s @ '','' @ join_comma (t # ss)"

text \<open>
  \<open>ToString\<close>, as a template literal and \<open>toString()\<close> apply it. An object prints
  as \<open>[object Object]\<close> (a response whose objects shadow \<open>toString\<close> or
  \<open>valueOf\<close> is outside the model).
\<close>

fun to_string :: "platform \<Rightarrow> json \<Rightarrow> string" where
  "to_string env JNull = ''null''"
| "to_string env (JBool b) = (if b then ''true'' else ''false'')"
| "to_string env (JNum r) = NumberToString env r"
| "to_string env (JStr s) = s"
| "to_string env (JArr xs) =
     join_comma (map (\<lambda>x. if x = JNull then [] else to_string env x) xs)"
| "to_string env (JObj kvs) = ''[object Object]''"

definition template :: "platform \<Rightarrow> json option \<Rightarrow> string" where
  "template env v = (case v of None \<Rightarrow> ''undefined'' | Some x \<Rightarrow> to_string env x)"

text \<open>\<open>parseFloat(v)\<close> converts \<open>v\<close> to a string and parses that.\<close>

definition parseFloat :: "platform \<Rightarrow> json option \<Rightarrow> jsnum" where
  "parseFloat env v = ParseFloat env (template env v)"

subsection \<open>Array.prototype.sort\<close>

text \<open>
  \<open>arr.sort(comparefn)\<close> sorts in place and is stable. A comparator result \<open>v\<close> is
  read by its sign, with \<open>NaN\<close> read as \<open>+0\<close>: \<open>v > 0\<close> puts the second argument
  first. An exception of the comparator leaves the sort. The model is the stable
  insertion sort; for a comparator that is a consistent ordering every stable sort returns
  the same array. Where the comparator is not one (a \<open>NaN\<close> score among numbers),
  ECMAScript leaves the order to the implementation, and what is proved of such arrays
  is proved of this algorithm.
\<close>

fun js_pos :: "jsnum \<Rightarrow> bool" where
  "js_pos PInf = True"
| "js_pos (Fin r) = (0 < r)"
| "js_pos NaN = False"
| "js_pos NInf = False"

fun sort_insert :: "('a \<Rightarrow> 'a \<Rightarrow> exn + jsnum) \<Rightarrow> 'a \<Rightarrow> 'a list \<Rightarrow> exn + 'a list" where
  "sort_insert cmp x [] = Inr [x]"
| "sort_insert cmp x (y # ys) =
     (case cmp x y of
        Inl e \<Rightarrow> Inl e
      | Inr v \<Rightarrow>
          if js_pos v then
            (case sort_insert cmp x ys of Inl e \<Rightarrow> Inl e | Inr zs \<Rightarrow> Inr (y # zs))
          else Inr (x # y # ys))"

fun array_sort :: "('a \<Rightarrow> 'a \<Rightarrow> exn + jsnum) \<Rightarrow> 'a list \<Rightarrow> exn + 'a list" where
  "array_sort cmp [] = Inr []"
| "array_sort cmp (x # xs) =
     (case array_sort cmp xs of Inl e \<Rightarrow> Inl e | Inr ys \<Rightarrow> sort_insert cmp x ys)"

section \<open>The ranking selector: LogoService.selectBestLogo\<close>

definition getLanguagePriority :: "string \<Rightarrow> json option \<Rightarrow> int" where
  "getLanguagePriority preferredLanguage lang =
     (if lang = Some (JStr preferredLanguage) then 4
      else if lang = Some (JStr ''en'') then 3
      else if lang = Some JNull \<or> lang = Some (JStr '''') then 2
      else 1)"

text \<open>\<open>parseFloat(a.vote_average || a.likes || '0')\<close>\<close>

definition rating :: "platform \<Rightarrow> json \<Rightarrow> exn + jsnum" where
  "rating env a =
     (case get_prop a ''vote_average'' of
        Inl e \<Rightarrow> Inl e
      | Inr va \<Rightarrow>
          (case get_prop a ''likes'' of
             Inl e \<Rightarrow> Inl e
           | Inr lk \<Rightarrow> Inr (parseFloat env (js_or (js_or va lk) (Some (JStr ''0''))))))"

text \<open>The comparator passed to \<open>logos.sort\<close>.\<close>

definition compareLogos :: "platform \<Rightarrow> string \<Rightarrow> string \<Rightarrow> json \<Rightarrow> json \<Rightarrow> exn + jsnum" where
  "compareLogos env preferredLanguage languageKey a b =
     (case get_prop a languageKey of
        Inl e \<Rightarrow> Inl e
      | Inr aLang \<Rightarrow>
          (case get_prop b languageKey of
             Inl e \<Rightarrow> Inl e
           | Inr bLang \<Rightarrow>
               let aPriority = getLanguagePriority preferredLanguage aLang;
                   bPriority = getLanguagePriority preferredLanguage bLang
               in if aPriority \<noteq> bPriority then Inr (Fin (of_int (bPriority - aPriority)))
                  else (case rating env a of
                          Inl e \<Rightarrow> Inl e
                        | Inr aRating \<Rightarrow>
                            (case rating env b of
                               Inl e \<Rightarrow> Inl e
                             | Inr bRating \<Rightarrow> Inr (js_sub bRating aRating)))))"

text \<open>
  \<open>selectBestLogo(logos, preferredLanguage, languageKey)\<close>. The result is the returned
  value (\<open>JNull\<close> for \<open>null\<close>) together with the contents of the caller's array
  after the call: \<open>sort\<close> works on the array it is given.
\<close>

definition selectBestLogo ::
  "platform \<Rightarrow> json list \<Rightarrow> string \<Rightarrow> string \<Rightarrow> exn + (json \<times> json list)" where
  "selectBestLogo env logos preferredLanguage languageKey =
     (if logos = [] then Inr (JNull, logos)
      else (case array_sort (compareLogos env preferredLanguage languageKey) logos of
              Inl e \<Rightarrow> Inl e
            | Inr sortedLogos \<Rightarrow>
                (case sortedLogos of
                   [] \<Rightarrow> Inr (JNull, sortedLogos)
                 | best # rest \<Rightarrow> Inr (best, sortedLogos))))"











section \<open>The ID parser\<close>

text \<open>
  \<open>ExternalId\<close> (\<open>Id\<close> in the second Fanart.tv client): the kind of an
  identifier and its value (the fields \<open>type\<close> and \<open>value\<close> of the source).
\<close>

datatype IdType = imdb | tmdb | tvdb

record ExternalId =
  idType :: IdType
  idValue :: string

text \<open>A decimal digit, \<^verbatim>\<open>\d\<close>.\<close>

definition is_digit :: "char \<Rightarrow> bool" where
  "is_digit c = (c \<in> set ''0123456789'')"

text \<open>
  The regular expressions. Each is modelled by the function from a string to the first
  capture group of its match, \<open>None\<close> when the string does not match. All are
  anchored at both ends; \<^verbatim>\<open>\d+\<close> is greedy, and giving digits back never helps
  since the next character must then be a colon or the end.
\<close>

fun strip_prefix :: "string \<Rightarrow> string \<Rightarrow> string option" where
  "strip_prefix [] s = Some s"
| "strip_prefix (p # ps) [] = None"
| "strip_prefix (p # ps) (c # cs) = (if p = c then strip_prefix ps cs else None)"

text \<open>\<^verbatim>\<open>(?::\d+:\d+)?$\<close>\<close>

definition match_episode_end :: "string \<Rightarrow> bool" where
  "match_episode_end r =
     (case r of
        [] \<Rightarrow> True
      | c # r1 \<Rightarrow>
          c = CHR '':'' \<and> takeWhile is_digit r1 \<noteq> [] \<and>
          (case dropWhile is_digit r1 of
             [] \<Rightarrow> False
           | c2 # r3 \<Rightarrow> c2 = CHR '':'' \<and> r3 \<noteq> [] \<and> list_all is_digit r3))"

text \<open>\<^verbatim>\<open>(\d+)(?::\d+:\d+)?$\<close>\<close>

definition match_digits_end :: "string \<Rightarrow> string option" where
  "match_digits_end r =
     (let ds = takeWhile is_digit r
      in if ds \<noteq> [] \<and> match_episode_end (dropWhile is_digit r) then Some ds else None)"

text \<open>\<^verbatim>\<open>/^(?:tmdb)[-:](\d+)(?::\d+:\d+)?$/\<close>\<close>

definition TMDB_ID_REGEX :: "string \<Rightarrow> string option" where
  "TMDB_ID_REGEX id' =
     (case strip_prefix ''tmdb'' id' of
        None \<Rightarrow> None
      | Some [] \<Rightarrow> None
      | Some (c # r) \<Rightarrow> if c = CHR ''-'' \<or> c = CHR '':'' then match_digits_end r else None)"

text \<open>\<^verbatim>\<open>/^(?:tvdb)[-:](\d+)(?::\d+:\d+)?$/\<close>\<close>

definition TVDB_ID_REGEX :: "string \<Rightarrow> string option" where
  "TVDB_ID_REGEX id' =
     (case strip_prefix ''tvdb'' id' of
        None \<Rightarrow> None
      | Some [] \<Rightarrow> None
      | Some (c # r) \<Rightarrow> if c = CHR ''-'' \<or> c = CHR '':'' then match_digits_end r else None)"

text \<open>\<^verbatim>\<open>/^(?:tt)(\d+)(?::\d+:\d+)?$/\<close>\<close>

definition IMDB_ID_REGEX :: "string \<Rightarrow> string option" where
  "IMDB_ID_REGEX id' =
     (case strip_prefix ''tt'' id' of None \<Rightarrow> None | Some r \<Rightarrow> match_digits_end r)"

text \<open>
  \<^verbatim>\<open>/^(?:tt)?(\d+)(?::\d+:\d+)?$/\<close> of \<open>fanart.ts\<close>: the prefix \<open>tt\<close>
  is optional.
\<close>

definition FanartTV_IMDB_ID_REGEX :: "string \<Rightarrow> string option" where
  "FanartTV_IMDB_ID_REGEX id' =
     (case IMDB_ID_REGEX id' of Some m \<Rightarrow> Some m | None \<Rightarrow> match_digits_end id')"

text \<open>\<open>LogoService.parseExternalId\<close>\<close>

definition parseExternalId :: "string \<Rightarrow> ExternalId option" where
  "parseExternalId id' =
     (case TMDB_ID_REGEX id' of
        Some m \<Rightarrow> Some \<lparr>idType = tmdb, idValue = m\<rparr>
      | None \<Rightarrow>
          (case IMDB_ID_REGEX id' of
             Some m \<Rightarrow> Some \<lparr>idType = imdb, idValue = ''tt'' @ m\<rparr>
           | None \<Rightarrow>
               (case TVDB_ID_REGEX id' of
                  Some m \<Rightarrow> Some \<lparr>idType = tvdb, idValue = m\<rparr>
                | None \<Rightarrow> None)))"

text \<open>\<open>FanartTV.getParsedId\<close> of the second client, which also looks at the content type.\<close>

definition getParsedId :: "string \<Rightarrow> string \<Rightarrow> ExternalId option" where
  "getParsedId id' type =
     (case TMDB_ID_REGEX id' of
        Some m \<Rightarrow> if type = ''movie'' then Some \<lparr>idType = tmdb, idValue = m\<rparr> else None
      | None \<Rightarrow>
          (case IMDB_ID_REGEX id' of
             Some m \<Rightarrow> Some \<lparr>idType = imdb, idValue = ''tt'' @ m\<rparr>
           | None \<Rightarrow>
               (case TVDB_ID_REGEX id' of
                  Some m \<Rightarrow> if type = ''series'' then Some \<lparr>idType = tvdb, idValue = m\<rparr> else None
                | None \<Rightarrow> None)))"

text \<open>\<open>FanartTV.parseImdbId\<close> of \<open>fanart.ts\<close>\<close>

definition parseImdbId :: "string \<Rightarrow> string option" where
  "parseImdbId id' =
     (case FanartTV_IMDB_ID_REGEX id' of Some m \<Rightarrow> Some (''tt'' @ m) | None \<Rightarrow> None)"

text \<open>
  The identifier forms as the specification writes them: \<open>tt<digits>\<close>,
  \<open>tmdb[-:]<digits>\<close>, \<open>tvdb[-:]<digits>\<close>, each with an optional
  \<open>:season:episode\<close> suffix, and bare digits with such a suffix.
\<close>

definition digits :: "string \<Rightarrow> bool" where
  "digits ds = (ds \<noteq> [] \<and> list_all is_digit ds)"

definition episode_suffix :: "string \<Rightarrow> bool" where
  "episode_suffix sfx =
     (sfx = [] \<or> (\<exists>se ep. digits se \<and> digits ep \<and> sfx = '':'' @ se @ '':'' @ ep))"

definition is_separator :: "char \<Rightarrow> bool" where
  "is_separator c = (c = CHR ''-'' \<or> c = CHR '':'')"

definition is_tmdb_id :: "string \<Rightarrow> bool" where
  "is_tmdb_id id' =
     (\<exists>sep ds sfx. is_separator sep \<and> digits ds \<and> episode_suffix sfx \<and>
        id' = ''tmdb'' @ sep # ds @ sfx)"

definition is_tvdb_id :: "string \<Rightarrow> bool" where
  "is_tvdb_id id' =
     (\<exists>sep ds sfx. is_separator sep \<and> digits ds \<and> episode_suffix sfx \<and>
        id' = ''tvdb'' @ sep # ds @ sfx)"

definition is_imdb_id :: "string \<Rightarrow> bool" where
  "is_imdb_id id' = (\<exists>ds sfx. digits ds \<and> episode_suffix sfx \<and> id' = ''tt'' @ ds @ sfx)"

definition is_bare_id :: "string \<Rightarrow> bool" where
  "is_bare_id id' = (\<exists>ds sfx. digits ds \<and> episode_suffix sfx \<and> id' = ds @ sfx)"

section \<open>Effects: the network, the call log, exceptions\<close>

text \<open>
  What a call does besides returning: it asks the HTTP wrapper for a URL, it parses an
  identifier, it invokes a poster provider. The log keeps these events in order, so that
  "no network call" and "never invoked" are statements about the log.
\<close>

datatype event =
    HttpRequest string
  | ParseExternalId string
  | RpdbGetPosterUrl string string
  | FanartGetPosterUrl string string

text \<open>
  An asynchronous or throwing computation: the value it resolves to or the exception it
  rejects with, and the events it caused.
\<close>

type_synonym 'a io = "(exn + 'a) \<times> event list"

definition io_return :: "'a \<Rightarrow> 'a io" where
  "io_return v = (Inr v, [])"

definition io_lift :: "exn + 'a \<Rightarrow> 'a io" where
  "io_lift r = (r, [])"

definition io_bind :: "'a io \<Rightarrow> ('a \<Rightarrow> 'b io) \<Rightarrow> 'b io" where
  "io_bind m f =
     (case m of
        (Inl e, t) \<Rightarrow> (Inl e, t)
      | (Inr v, t) \<Rightarrow> (case f v of (r, t') \<Rightarrow> (r, t @ t')))"

text \<open>\<open>try { m } catch (error) { h }\<close>\<close>

definition io_catch :: "'a io \<Rightarrow> (exn \<Rightarrow> 'a io) \<Rightarrow> 'a io" where
  "io_catch m h =
     (case m of
        (Inl e, t) \<Rightarrow> (case h e of (r, t') \<Rightarrow> (r, t @ t'))
      | (Inr v, t) \<Rightarrow> (Inr v, t))"

text \<open>
  \<open>await makeRequest(url, timeout, headers, undefined, forwardIp)\<close>: the request is
  logged, and the wrapper's answer or exception is the result.
\<close>

definition request :: "platform \<Rightarrow> string \<Rightarrow> nat \<Rightarrow> (string \<times> string) list \<Rightarrow> bool \<Rightarrow> response io" where
  "request env url timeout headers forwardIp =
     (makeRequest env url timeout headers forwardIp, [HttpRequest url])"

subsection \<open>More of the language\<close>

text \<open>\<open>v.toString()\<close>\<close>

definition call_toString :: "platform \<Rightarrow> json option \<Rightarrow> exn + string" where
  "call_toString env v =
     (case v of
        None \<Rightarrow> Inl TypeError
      | Some JNull \<Rightarrow> Inl TypeError
      | Some x \<Rightarrow> Inr (to_string env x))"

text \<open>\<open>ToNumber\<close>, as the operators \<open>-\<close> and \<open>>\<close> apply it.\<close>

definition to_number :: "platform \<Rightarrow> json option \<Rightarrow> jsnum" where
  "to_number env v =
     (case v of
        None \<Rightarrow> NaN
      | Some JNull \<Rightarrow> Fin 0
      | Some (JBool b) \<Rightarrow> Fin (if b then 1 else 0)
      | Some (JNum r) \<Rightarrow> Fin r
      | Some (JStr s) \<Rightarrow> StringToNumber env s
      | Some (JArr xs) \<Rightarrow> StringToNumber env (to_string env (JArr xs))
      | Some (JObj kvs) \<Rightarrow> NaN)"

text \<open>\<open>v.k\<close> for a possibly undefined \<open>v\<close>, and \<open>v?.k\<close>.\<close>

definition prop_of :: "json option \<Rightarrow> string \<Rightarrow> exn + json option" where
  "prop_of v k = (case v of None \<Rightarrow> Inl TypeError | Some x \<Rightarrow> get_prop x k)"

definition opt_prop :: "json option \<Rightarrow> string \<Rightarrow> json option" where
  "opt_prop v k =
     (case v of
        None \<Rightarrow> None
      | Some JNull \<Rightarrow> None
      | Some x \<Rightarrow> (case get_prop x k of Inl e \<Rightarrow> None | Inr p \<Rightarrow> p))"

text \<open>\<open>v[0]\<close>\<close>

fun get_index0 :: "json \<Rightarrow> exn + json option" where
  "get_index0 JNull = Inl TypeError"
| "get_index0 (JArr xs) = Inr (case xs of [] \<Rightarrow> None | x # rest \<Rightarrow> Some x)"
| "get_index0 (JStr s) = Inr (case s of [] \<Rightarrow> None | c # rest \<Rightarrow> Some (JStr [c]))"
| "get_index0 (JObj kvs) = Inr (map_of kvs ''0'')"
| "get_index0 (JBool b) = Inr None"
| "get_index0 (JNum r) = Inr None"

definition null_of :: "json option \<Rightarrow> json" where
  "null_of v = (case v of None \<Rightarrow> JNull | Some x \<Rightarrow> x)"

text \<open>A configured key or token: \<open>if (this.fanartApiKey)\<close>.\<close>

definition configured :: "string option \<Rightarrow> bool" where
  "configured k = (case k of None \<Rightarrow> False | Some s \<Rightarrow> s \<noteq> [])"

definition key_string :: "string option \<Rightarrow> string" where
  "key_string k = (case k of None \<Rightarrow> ''undefined'' | Some s \<Rightarrow> s)"

section \<open>The cache\<close>

text \<open>
  Modelled from the spec: the generic cache store (\<open>./cache\<close> is not among the sources),
  "key/value with TTL", \<open>get(key) -> value | undefined\<close> and
  \<open>set(key, value, ttlSeconds)\<close>: an entry is a value with its expiry and is returned
  until the expiry; \<open>None\<close> is \<open>undefined\<close>. The clock is read once per call.
\<close>

type_synonym 'v cache = "string \<Rightarrow> ('v \<times> nat) option"

definition cache_get :: "'v cache \<Rightarrow> nat \<Rightarrow> string \<Rightarrow> 'v option" where
  "cache_get c now k =
     (case c k of
        None \<Rightarrow> None
      | Some (v, expiry) \<Rightarrow> if now < expiry then Some v else None)"

definition cache_set :: "'v cache \<Rightarrow> nat \<Rightarrow> string \<Rightarrow> 'v \<Rightarrow> nat \<Rightarrow> 'v cache" where
  "cache_set c now k v ttl = c(k \<mapsto> (v, now + ttl))"

section \<open>LogoService\<close>

text \<open>The service after construction: the TMDB token and the Fanart.tv key, when set.\<close>

record LogoService =
  tmdbAccessToken :: "string option"
  fanartApiKey :: "string option"

definition LOGO_CACHE_TTL :: nat where
  "LOGO_CACHE_TTL = 24 * 60 * 60"

definition IdType_string :: "IdType \<Rightarrow> string" where
  "IdType_string t = (case t of imdb \<Rightarrow> ''imdb'' | tmdb \<Rightarrow> ''tmdb'' | tvdb \<Rightarrow> ''tvdb'')"

definition is_array :: "json option \<Rightarrow> bool" where
  "is_array v = (case v of Some (JArr xs) \<Rightarrow> True | _ \<Rightarrow> False)"

definition array_elems :: "json option \<Rightarrow> json list" where
  "array_elems v = (case v of Some (JArr xs) \<Rightarrow> xs | _ \<Rightarrow> [])"

text \<open>
  \<open>getFanartLogo\<close>. Its first statement chooses the endpoint and the key of the logo
  list for the supported combinations (\<open>fanartLogoRequest\<close>; \<open>None\<close> is the branch
  that returns \<open>null\<close> at once); then come the request, the list and the selection.
  Every exception is caught and answered with \<open>null\<close>.
\<close>

definition fanartLogoRequest :: "LogoService \<Rightarrow> ExternalId \<Rightarrow> string \<Rightarrow> (string \<times> string) option" where
  "fanartLogoRequest self externalId type =
     (if type = ''movie'' \<and> idType externalId = tmdb then
        Some (''https://webservice.fanart.tv/v3/movies/'' @ idValue externalId
                @ ''?api_key='' @ key_string (fanartApiKey self), ''movielogo'')
      else if (type = ''series'' \<or> type = ''tv'') \<and> idType externalId = tvdb then
        Some (''https://webservice.fanart.tv/v3/tv/'' @ idValue externalId
                @ ''?api_key='' @ key_string (fanartApiKey self), ''clearlogo'')
      else None)"

definition getFanartLogo :: "platform \<Rightarrow> LogoService \<Rightarrow> ExternalId \<Rightarrow> string \<Rightarrow> string \<Rightarrow> json io" where
  "getFanartLogo env self externalId type language =
     io_catch
       (case fanartLogoRequest self externalId type of
          None \<Rightarrow> io_return JNull
        | Some (endpoint, logoKey) \<Rightarrow>
            io_bind (request env endpoint 10000 [] False) (\<lambda>response.
              if \<not> response_ok response then io_return JNull
              else
                io_bind (io_lift (json_body response)) (\<lambda>data.
                io_bind (io_lift (get_prop data logoKey)) (\<lambda>logos.
                  if \<not> truthy logos \<or> \<not> is_array logos \<or> array_elems logos = [] then io_return JNull
                  else
                    io_bind (io_lift (selectBestLogo env (array_elems logos) language ''lang''))
                      (\<lambda>(selectedLogo, sortedLogos).
                         io_return (null_of (js_or (opt_prop (Some selectedLogo) ''url'') (Some JNull))))))))
       (\<lambda>error. io_return JNull)"

definition convertToTmdbId :: "platform \<Rightarrow> LogoService \<Rightarrow> ExternalId \<Rightarrow> string \<Rightarrow> string option io" where
  "convertToTmdbId env self externalId type =
     io_catch
       (io_bind
          (request env
             (''https://api.themoviedb.org/3/find/'' @ idValue externalId
                @ ''?external_source='' @ IdType_string (idType externalId) @ ''_id'')
             10000 [(''Authorization'', ''Bearer '' @ key_string (tmdbAccessToken self))] False)
          (\<lambda>response.
             if \<not> response_ok response then io_return None
             else
               io_bind (io_lift (json_body response)) (\<lambda>data.
               io_bind (io_lift (get_prop data (if type = ''movie'' then ''movie_results'' else ''tv_results'')))
                 (\<lambda>results.
                    if \<not> truthy results then io_return None
                    else
                      io_bind (io_lift (prop_of results ''length'')) (\<lambda>len.
                        if len = Some (JNum 0) then io_return None
                        else
                          io_bind (io_lift (get_index0 (null_of results))) (\<lambda>first.
                          io_bind (io_lift (prop_of first ''id'')) (\<lambda>i.
                          io_bind (io_lift (call_toString env i)) (\<lambda>s.
                            io_return (Some s)))))))))
       (\<lambda>error. io_return None)"

definition getTmdbLogo :: "platform \<Rightarrow> LogoService \<Rightarrow> ExternalId \<Rightarrow> string \<Rightarrow> string \<Rightarrow> json io" where
  "getTmdbLogo env self externalId type language =
     io_catch
       (io_bind
          (if idType externalId \<noteq> tmdb then convertToTmdbId env self externalId type
           else io_return (Some (idValue externalId)))
          (\<lambda>tmdbId.
             if idType externalId \<noteq> tmdb \<and> \<not> configured tmdbId then io_return JNull
             else
               io_bind
                 (request env
                    (if type = ''movie''
                     then ''https://api.themoviedb.org/3/movie/'' @ key_string tmdbId @ ''/images''
                     else ''https://api.themoviedb.org/3/tv/'' @ key_string tmdbId @ ''/images'')
                    10000 [(''Authorization'', ''Bearer '' @ key_string (tmdbAccessToken self))] False)
                 (\<lambda>response.
                    if \<not> response_ok response then io_return JNull
                    else
                      io_bind (io_lift (json_body response)) (\<lambda>data.
                      io_bind (io_lift (get_prop data ''logos'')) (\<lambda>logos.
                        if \<not> truthy logos \<or> \<not> is_array logos \<or> array_elems logos = [] then io_return JNull
                        else
                          io_bind (io_lift (selectBestLogo env (array_elems logos) language ''iso_639_1''))
                            (\<lambda>(selectedLogo, sortedLogos).
                               if truthy (Some selectedLogo) then
                                 io_return (JStr (''https://image.tmdb.org/t/p/original''
                                    @ template env (opt_prop (Some selectedLogo) ''file_path'')))
                               else io_return JNull))))))
       (\<lambda>error. io_return JNull)"

text \<open>
  \<open>getLogo(id, type, language)\<close> at clock reading \<open>now\<close>: the result with its events, and
  the logo cache after the call. The cache key is the template
  \<^verbatim>\<open>`${id}-${type}-${language}`\<close> (\<open>logoCacheKey\<close>). The branches on an exception of a provider method are
  the outer \<open>catch\<close>: \<open>null\<close> is returned and nothing is cached.
\<close>

definition logoCacheKey :: "string \<Rightarrow> string \<Rightarrow> string \<Rightarrow> string" where
  "logoCacheKey id' type language = id' @ ''-'' @ type @ ''-'' @ language"

definition getLogo ::
  "platform \<Rightarrow> LogoService \<Rightarrow> json cache \<Rightarrow> nat \<Rightarrow> string \<Rightarrow> string \<Rightarrow> string \<Rightarrow> json io \<times> json cache" where
  "getLogo env self logoCache now id' type language =
     (let cacheKey = logoCacheKey id' type language in
      case cache_get logoCache now cacheKey of
        Some cachedLogo \<Rightarrow> (io_return cachedLogo, logoCache)
      | None \<Rightarrow>
          (case parseExternalId id' of
             None \<Rightarrow>
               ((Inr JNull, [ParseExternalId id']),
                cache_set logoCache now cacheKey JNull LOGO_CACHE_TTL)
           | Some externalId \<Rightarrow>
               (case (if configured (fanartApiKey self)
                      then getFanartLogo env self externalId type language
                      else io_return JNull) of
                  (Inl error, t1) \<Rightarrow> ((Inr JNull, ParseExternalId id' # t1), logoCache)
                | (Inr logo, t1) \<Rightarrow>
                    if truthy (Some logo) then
                      ((Inr logo, ParseExternalId id' # t1),
                       cache_set logoCache now cacheKey logo LOGO_CACHE_TTL)
                    else
                      (case (if configured (tmdbAccessToken self)
                             then getTmdbLogo env self externalId type language
                             else io_return logo) of
                         (Inl error, t2) \<Rightarrow>
                           ((Inr JNull, ParseExternalId id' # t1 @ t2), logoCache)
                       | (Inr logo2, t2) \<Rightarrow>
                           if truthy (Some logo2) then
                             ((Inr logo2, ParseExternalId id' # t1 @ t2),
                              cache_set logoCache now cacheKey logo2 LOGO_CACHE_TTL)
                           else
                             ((Inr JNull, ParseExternalId id' # t1 @ t2),
                              cache_set logoCache now cacheKey JNull LOGO_CACHE_TTL)))))"

section \<open>The Fanart.tv clients\<close>

subsection \<open>\<open>fanart.ts\<close>\<close>

text \<open>
  \<open>validateApiKey\<close>: \<open>ttl\<close> stands for \<open>Env.RPDB_API_KEY_VALIDITY_CACHE_TTL\<close>,
  which is not among the sources.
\<close>

definition FanartTV_validateApiKey ::
  "platform \<Rightarrow> nat \<Rightarrow> string \<Rightarrow> bool cache \<Rightarrow> nat \<Rightarrow> bool io \<times> bool cache" where
  "FanartTV_validateApiKey env ttl apiKey apiKeyValidationCache now =
     (case cache_get apiKeyValidationCache now apiKey of
        Some cached \<Rightarrow> (io_return cached, apiKeyValidationCache)
      | None \<Rightarrow>
          (case request env (''https://webservice.fanart.tv/v3/movies/tt0111161?api_key='' @ apiKey)
                  5000 [] True of
             (Inl error, t) \<Rightarrow> ((Inr False, t), apiKeyValidationCache)
           | (Inr response, t) \<Rightarrow>
               if response_ok response then
                 ((Inr True, t), cache_set apiKeyValidationCache now apiKey True ttl)
               else if status response = 401 then
                 ((Inr False, t), cache_set apiKeyValidationCache now apiKey False ttl)
               else ((Inr False, t), apiKeyValidationCache)))"

text \<open>The comparator of the poster sort: \<open>(b.likes || 0) - (a.likes || 0)\<close>.\<close>

definition comparePosters :: "platform \<Rightarrow> json \<Rightarrow> json \<Rightarrow> exn + jsnum" where
  "comparePosters env a b =
     (case get_prop b ''likes'' of
        Inl e \<Rightarrow> Inl e
      | Inr bLikes \<Rightarrow>
          (case get_prop a ''likes'' of
             Inl e \<Rightarrow> Inl e
           | Inr aLikes \<Rightarrow>
               Inr (js_sub (to_number env (js_or bLikes (Some (JNum 0))))
                           (to_number env (js_or aLikes (Some (JNum 0)))))))"

text \<open>
  \<open>getPosterUrl\<close> of \<open>fanart.ts\<close>: the identifier is read as an IMDb identifier, the
  endpoint is chosen by the content type (\<open>fanartPosterEndpoint\<close>; \<open>None\<close> is the
  branch that returns \<open>null\<close>), then the request and the poster with the most likes. A
  value that is no array has no \<open>sort\<close>: calling it throws.
\<close>

definition fanartPosterEndpoint :: "string \<Rightarrow> string \<Rightarrow> string \<Rightarrow> string option" where
  "fanartPosterEndpoint apiKey type imdbId =
     (if type = ''movie'' then
        Some (''https://webservice.fanart.tv/v3/movies/'' @ imdbId @ ''?api_key='' @ apiKey)
      else if type = ''series'' then
        Some (''https://webservice.fanart.tv/v3/tv/'' @ imdbId @ ''?api_key='' @ apiKey)
      else None)"

definition FanartTV_getPosterUrl :: "platform \<Rightarrow> string \<Rightarrow> string \<Rightarrow> string \<Rightarrow> json io" where
  "FanartTV_getPosterUrl env apiKey type id' =
     (case parseImdbId id' of
        None \<Rightarrow> io_return JNull
      | Some imdbId \<Rightarrow>
          io_catch
            (case fanartPosterEndpoint apiKey type imdbId of
               None \<Rightarrow> io_return JNull
             | Some endpoint \<Rightarrow>
                 io_bind (request env endpoint 5000 [] True) (\<lambda>response.
                   if \<not> response_ok response then io_return JNull
                   else
                     io_bind (io_lift (json_body response)) (\<lambda>data.
                       let posters =
                             (if type = ''movie'' \<and> truthy (opt_prop (Some data) ''movieposter'')
                              then opt_prop (Some data) ''movieposter''
                              else if type = ''series'' \<and> truthy (opt_prop (Some data) ''tvposter'')
                              then opt_prop (Some data) ''tvposter''
                              else Some (JArr []))
                       in if truthy posters \<and> js_pos (to_number env (opt_prop posters ''length'')) then
                            (if is_array posters then
                               io_bind (io_lift (array_sort (comparePosters env) (array_elems posters)))
                                 (\<lambda>sortedPosters.
                                    io_bind (io_lift (prop_of (case sortedPosters of [] \<Rightarrow> None | p # ps \<Rightarrow> Some p) ''url''))
                                      (\<lambda>url. io_return (null_of (js_or url (Some JNull)))))
                             else io_lift (Inl TypeError))
                          else io_return JNull)))
            (\<lambda>error. io_return JNull))"

subsection \<open>The second client\<close>

text \<open>
  The other \<open>FanartTV\<close> class of the sources (\<open>src/unnamed/part_001\<close>). Its
  \<open>getPosterUrl\<close> is synchronous and makes no request: it builds the endpoint URL.
  Its \<open>validateApiKey\<close> returns a cached value only when it is truthy.
\<close>

definition FanartTV_part001_validateApiKey ::
  "platform \<Rightarrow> nat \<Rightarrow> string \<Rightarrow> bool cache \<Rightarrow> nat \<Rightarrow> bool io \<times> bool cache" where
  "FanartTV_part001_validateApiKey env ttl apiKey apiKeyValidationCache now =
     (if cache_get apiKeyValidationCache now apiKey = Some True then
        (io_return True, apiKeyValidationCache)
      else
        (case request env (''https://webservice.fanart.tv/v3/movies/123456?api_key='' @ apiKey)
                5000 [] True of
           (Inl error, t) \<Rightarrow> ((Inr False, t), apiKeyValidationCache)
         | (Inr response, t) \<Rightarrow>
             let isValid = (status response \<noteq> 401)
             in ((Inr isValid, t), cache_set apiKeyValidationCache now apiKey isValid ttl)))"

definition FanartTV_part001_getPosterUrl :: "string \<Rightarrow> string \<Rightarrow> string \<Rightarrow> json" where
  "FanartTV_part001_getPosterUrl apiKey type id' =
     (case getParsedId id' type of
        None \<Rightarrow> JNull
      | Some parsedId \<Rightarrow>
          if type = ''movie'' \<and> idType parsedId = tmdb then
            JStr (''https://webservice.fanart.tv/v3/movies/'' @ idValue parsedId @ ''?api_key='' @ apiKey)
          else if type = ''series'' \<and> idType parsedId = tvdb then
            JStr (''https://webservice.fanart.tv/v3/tv/'' @ idValue parsedId @ ''?api_key='' @ apiKey)
          else JNull)"

section \<open>ArtworkProvider\<close>

text \<open>
  The orchestrator holds its providers when they are configured. A provider is the
  method \<open>getPosterUrl(type, id)\<close> of its client: RPDB's class is not among the
  sources, so a provider is any such method, which may throw.
\<close>

type_synonym provider = "string \<Rightarrow> string \<Rightarrow> json io"

record ArtworkProvider =
  rpdb :: "provider option"
  fanart :: "provider option"

definition invoke :: "event \<Rightarrow> 'a io \<Rightarrow> 'a io" where
  "invoke ev m = (case m of (r, t) \<Rightarrow> (r, ev # t))"

definition ArtworkProvider_getPosterUrl :: "ArtworkProvider \<Rightarrow> string \<Rightarrow> string \<Rightarrow> json io" where
  "ArtworkProvider_getPosterUrl self type id' =
     io_bind
       (case rpdb self of
          None \<Rightarrow> io_return JNull
        | Some p \<Rightarrow>
            io_catch (invoke (RpdbGetPosterUrl type id') (p type id')) (\<lambda>error. io_return JNull))
       (\<lambda>rpdbPosterUrl.
          if truthy (Some rpdbPosterUrl) then io_return rpdbPosterUrl
          else
            io_bind
              (case fanart self of
                 None \<Rightarrow> io_return JNull
               | Some p \<Rightarrow>
                   io_catch (invoke (FanartGetPosterUrl type id') (p type id'))
                     (\<lambda>error. io_return JNull))
              (\<lambda>fanartPosterUrl.
                 if truthy (Some fanartPosterUrl) then io_return fanartPosterUrl
                 else io_return JNull))"

section \<open>Notions used in the statements\<close>

text \<open>
  RPDB gives no URL: it is absent, it throws, or what it returns is \<open>null\<close> (or
  another falsy value); \<open>t1\<close> are the events up to that point.
\<close>

definition rpdb_no_url :: "ArtworkProvider \<Rightarrow> string \<Rightarrow> string \<Rightarrow> event list \<Rightarrow> bool" where
  "rpdb_no_url self type id' t1 =
     (case rpdb self of
        None \<Rightarrow> t1 = []
      | Some p \<Rightarrow>
          (case p type id' of
             (Inl e, t) \<Rightarrow> t1 = RpdbGetPosterUrl type id' # t
           | (Inr v, t) \<Rightarrow> \<not> truthy (Some v) \<and> t1 = RpdbGetPosterUrl type id' # t))"

text \<open>A URL is a non-empty string; such a value is truthy.\<close>

definition is_url :: "json \<Rightarrow> bool" where
  "is_url v = (case v of JStr u \<Rightarrow> u \<noteq> [] | _ \<Rightarrow> False)"

text \<open>
  The platforms of the examples: a network that fails every request, and responses with
  a given status. Their \<open>parseFloat\<close> is that of the language on the strings the
  examples score: a string of one to fifteen decimal digits is read as the integer it
  writes, which is below \<open>10^15\<close> and so a double, and \<open>abc\<close>, which has no
  numeric prefix, as \<open>NaN\<close>. It is not meant for any other string, and the other
  two conversions are not used by the examples.
\<close>

definition digit_val :: "char \<Rightarrow> nat" where
  "digit_val c = of_char c - 48"

definition digits_val :: "string \<Rightarrow> nat" where
  "digits_val ds = foldl (\<lambda>n c. 10 * n + digit_val c) 0 ds"

definition parseFloat_of_examples :: "string \<Rightarrow> jsnum" where
  "parseFloat_of_examples s =
     (if digits s \<and> length s \<le> 15 then Fin (of_nat (digits_val s)) else NaN)"

definition offline :: platform where
  "offline = \<lparr>makeRequest = (\<lambda>url timeout headers forwardIp. Inl (Thrown ''fetch failed'')),
              NumberToString = (\<lambda>r. []), StringToNumber = (\<lambda>s. NaN),
              ParseFloat = parseFloat_of_examples\<rparr>"

definition answering :: "int \<Rightarrow> json \<Rightarrow> platform" where
  "answering st body =
     \<lparr>makeRequest = (\<lambda>url timeout headers forwardIp. Inr \<lparr>status = st, json_body = Inr body\<rparr>),
      NumberToString = (\<lambda>r. []), StringToNumber = (\<lambda>s. NaN),
      ParseFloat = parseFloat_of_examples\<rparr>"

text \<open>Providers that return a URL, return \<open>null\<close>, and throw.\<close>

definition provider_url :: "string \<Rightarrow> provider" where
  "provider_url u = (\<lambda>type id'. (Inr (JStr u), []))"

definition provider_null :: provider where
  "provider_null = (\<lambda>type id'. (Inr JNull, []))"

definition provider_throws :: provider where
  "provider_throws = (\<lambda>type id'. (Inl (Thrown ''provider failed''), []))"

text \<open>A Fanart.tv response with one movie poster, and the cache with no entry.\<close>

definition poster_body :: json where
  "poster_body = JObj [(''movieposter'', JArr [JObj [(''url'', JStr ''https://assets.fanart.tv/p.jpg''), (''likes'', JStr ''3'')]])]"

definition empty_cache :: "'v cache" where
  "empty_cache = (\<lambda>k. None)"

text \<open>Every value a computation resolves to satisfies \<open>Q\<close>.\<close>

definition yields :: "('a \<Rightarrow> bool) \<Rightarrow> 'a io \<Rightarrow> bool" where
  "yields Q m = (\<forall>v. fst m = Inr v \<longrightarrow> Q v)"

text \<open>
  The responses respect the wire format of Fanart.tv in so far as every \<open>url\<close> of an
  element of a list in a response body is a string.
\<close>

definition fanart_urls_are_strings :: "platform \<Rightarrow> bool" where
  "fanart_urls_are_strings env =
     (\<forall>url timeout headers fwd response data k logos logo v.
        makeRequest env url timeout headers fwd = Inr response \<longrightarrow>
        json_body response = Inr data \<longrightarrow>
        get_prop data k = Inr (Some (JArr logos)) \<longrightarrow>
        logo \<in> set logos \<longrightarrow>
        get_prop logo ''url'' = Inr (Some v) \<longrightarrow> (\<exists>u. v = JStr u))"

text \<open>The two provider steps of \<open>getLogo\<close>.\<close>

definition fanart_step :: "platform \<Rightarrow> LogoService \<Rightarrow> ExternalId \<Rightarrow> string \<Rightarrow> string \<Rightarrow> json io" where
  "fanart_step env self externalId type language =
     (if configured (fanartApiKey self) then getFanartLogo env self externalId type language
      else io_return JNull)"

definition tmdb_step :: "platform \<Rightarrow> LogoService \<Rightarrow> ExternalId \<Rightarrow> string \<Rightarrow> string \<Rightarrow> json io" where
  "tmdb_step env self externalId type language =
     (if configured (tmdbAccessToken self) then getTmdbLogo env self externalId type language
      else io_return JNull)"

text \<open>A service with both providers configured, and a Fanart.tv response with one logo.\<close>

definition both_keys :: LogoService where
  "both_keys = \<lparr>tmdbAccessToken = Some ''TOKEN'', fanartApiKey = Some ''KEY''\<rparr>"

definition logo_body :: json where
  "logo_body = JObj [(''movielogo'',
      JArr [JObj [(''url'', JStr ''https://assets.fanart.tv/logo.png''), (''lang'', JStr ''en''),
                  (''likes'', JStr ''2'')]])]"

text \<open>Responses whose only logo, or poster, has a number where the URL should be.\<close>

definition numeric_logo_body :: json where
  "numeric_logo_body = JObj [(''movielogo'',
      JArr [JObj [(''url'', JNum 5), (''lang'', JStr ''en''), (''likes'', JStr ''2'')]])]"

definition numeric_poster_body :: json where
  "numeric_poster_body = JObj [(''movieposter'',
      JArr [JObj [(''url'', JNum 7), (''likes'', JStr ''3'')]])]"

section \<open>Verification\<close>

subsection \<open>Property reads and the comparator\<close>









subsection \<open>The stable sort\<close>

lemma sort_insert_mset:
  "sort_insert cmp x ys = Inr zs \<Longrightarrow> mset zs = add_mset x (mset ys)"
  by (induction ys arbitrary: zs) (auto split: sum.splits if_splits)

lemma array_sort_mset: "array_sort cmp xs = Inr ys \<Longrightarrow> mset ys = mset xs"
  by (induction xs arbitrary: ys) (auto split: sum.splits dest: sort_insert_mset)





subsection \<open>Ranking by tier\<close>





subsection \<open>Ranking by score, stability\<close>
























subsection \<open>The caller's array\<close>




subsection \<open>The ID parser\<close>

lemma strip_prefix_iff: "strip_prefix p s = Some r \<longleftrightarrow> s = p @ r"
  by (induction p s rule: strip_prefix.induct) auto

lemma strip_prefix_append: "strip_prefix p (p @ r) = Some r"
  by (simp add: strip_prefix_iff)

lemma colon_not_digit: "\<not> is_digit CHR '':''"
  by (simp add: is_digit_def)

lemma span_digits:
  assumes "list_all is_digit ds" "rest = [] \<or> \<not> is_digit (hd rest)"
  shows "takeWhile is_digit (ds @ rest) = ds" "dropWhile is_digit (ds @ rest) = rest"
proof -
  have a: "\<forall>x\<in>set ds. is_digit x" using assms(1) by (simp add: list_all_iff)
  have t: "takeWhile is_digit rest = []" using assms(2) by (cases rest) auto
  have d: "dropWhile is_digit rest = rest" using assms(2) by (cases rest) auto
  show "takeWhile is_digit (ds @ rest) = ds" using a t by (simp add: takeWhile_append2)
  show "dropWhile is_digit (ds @ rest) = rest" using a d by (simp add: dropWhile_append2)
qed

lemma episode_suffix_start: "episode_suffix sfx \<Longrightarrow> sfx = [] \<or> \<not> is_digit (hd sfx)"
  by (auto simp: episode_suffix_def colon_not_digit)

lemma match_episode_end_sound: "episode_suffix sfx \<Longrightarrow> match_episode_end sfx"
proof -
  assume "episode_suffix sfx"
  then consider "sfx = []" | se ep where "digits se" "digits ep" "sfx = '':'' @ se @ '':'' @ ep"
    by (auto simp: episode_suffix_def)
  then show ?thesis
  proof cases
    case 1
    then show ?thesis by (simp add: match_episode_end_def)
  next
    case 2
    have "takeWhile is_digit (se @ CHR '':'' # ep) = se" "dropWhile is_digit (se @ CHR '':'' # ep) = CHR '':'' # ep"
      using 2(1) span_digits[of se "CHR '':'' # ep"] by (simp_all add: digits_def colon_not_digit)
    with 2 show ?thesis by (simp add: match_episode_end_def digits_def)
  qed
qed

lemma match_episode_end_complete: "match_episode_end r \<Longrightarrow> episode_suffix r"
proof (cases r)
  case Nil
  then show ?thesis by (simp add: episode_suffix_def)
next
  case (Cons c r1)
  assume m: "match_episode_end r"
  with Cons have c: "c = CHR '':''" and se: "takeWhile is_digit r1 \<noteq> []"
    by (simp_all add: match_episode_end_def)
  from m Cons obtain r3 where d: "dropWhile is_digit r1 = CHR '':'' # r3" and r3: "r3 \<noteq> []" "list_all is_digit r3"
    by (auto simp: match_episode_end_def split: list.splits)
  have "r1 = takeWhile is_digit r1 @ CHR '':'' # r3"
    using takeWhile_dropWhile_id[of is_digit r1] d by simp
  moreover have "digits (takeWhile is_digit r1)"
    using se by (simp add: digits_def list_all_iff) (meson set_takeWhileD)
  moreover have "digits r3" using r3 by (simp add: digits_def)
  ultimately have "\<exists>se ep. digits se \<and> digits ep \<and> r = '':'' @ se @ '':'' @ ep"
    using Cons c by (intro exI[of _ "takeWhile is_digit r1"] exI[of _ r3]) simp
  then show ?thesis by (simp add: episode_suffix_def)
qed

lemma match_digits_end_sound:
  assumes "digits ds" "episode_suffix sfx"
  shows "match_digits_end (ds @ sfx) = Some ds"
proof -
  have "takeWhile is_digit (ds @ sfx) = ds" "dropWhile is_digit (ds @ sfx) = sfx"
    using assms span_digits[of ds sfx] episode_suffix_start[of sfx] by (simp_all add: digits_def)
  with assms match_episode_end_sound[of sfx] show ?thesis
    by (simp add: match_digits_end_def digits_def)
qed

lemma match_digits_end_complete:
  assumes "match_digits_end r = Some ds"
  shows "digits ds \<and> (\<exists>sfx. episode_suffix sfx \<and> r = ds @ sfx)"
proof -
  from assms have ds: "ds = takeWhile is_digit r" "ds \<noteq> []"
    and m: "match_episode_end (dropWhile is_digit r)"
    by (auto simp: match_digits_end_def Let_def split: if_splits)
  have "digits ds" using ds by (simp add: digits_def list_all_iff) (meson set_takeWhileD)
  moreover have "r = ds @ dropWhile is_digit r" using ds(1) by simp
  moreover have "episode_suffix (dropWhile is_digit r)" by (rule match_episode_end_complete[OF m])
  ultimately show ?thesis by blast
qed

lemma match_digits_end_iff:
  "match_digits_end r = Some ds \<longleftrightarrow> digits ds \<and> (\<exists>sfx. episode_suffix sfx \<and> r = ds @ sfx)"
  using match_digits_end_sound match_digits_end_complete by blast

lemma TMDB_ID_REGEX_iff:
  "TMDB_ID_REGEX s = Some m \<longleftrightarrow>
     digits m \<and> (\<exists>sep sfx. is_separator sep \<and> episode_suffix sfx \<and> s = ''tmdb'' @ sep # m @ sfx)"
proof
  assume a: "TMDB_ID_REGEX s = Some m"
  then obtain c r where cr: "strip_prefix ''tmdb'' s = Some (c # r)" "is_separator c" "match_digits_end r = Some m"
    by (auto simp: TMDB_ID_REGEX_def is_separator_def split: option.splits list.splits if_splits)
  from cr(1) have "s = ''tmdb'' @ c # r" by (simp only: strip_prefix_iff)
  with cr(2,3) show "digits m \<and> (\<exists>sep sfx. is_separator sep \<and> episode_suffix sfx \<and> s = ''tmdb'' @ sep # m @ sfx)"
    using match_digits_end_complete[OF cr(3)] by auto
next
  assume "digits m \<and> (\<exists>sep sfx. is_separator sep \<and> episode_suffix sfx \<and> s = ''tmdb'' @ sep # m @ sfx)"
  then obtain sep sfx where h: "digits m" "is_separator sep" "episode_suffix sfx" "s = ''tmdb'' @ sep # m @ sfx"
    by blast
  have "strip_prefix ''tmdb'' s = Some (sep # m @ sfx)" unfolding h(4) by (rule strip_prefix_append)
  with h(2) match_digits_end_sound[OF h(1,3)] show "TMDB_ID_REGEX s = Some m"
    by (simp add: TMDB_ID_REGEX_def is_separator_def)
qed

lemma TVDB_ID_REGEX_iff:
  "TVDB_ID_REGEX s = Some m \<longleftrightarrow>
     digits m \<and> (\<exists>sep sfx. is_separator sep \<and> episode_suffix sfx \<and> s = ''tvdb'' @ sep # m @ sfx)"
proof
  assume a: "TVDB_ID_REGEX s = Some m"
  then obtain c r where cr: "strip_prefix ''tvdb'' s = Some (c # r)" "is_separator c" "match_digits_end r = Some m"
    by (auto simp: TVDB_ID_REGEX_def is_separator_def split: option.splits list.splits if_splits)
  from cr(1) have "s = ''tvdb'' @ c # r" by (simp only: strip_prefix_iff)
  with cr(2,3) show "digits m \<and> (\<exists>sep sfx. is_separator sep \<and> episode_suffix sfx \<and> s = ''tvdb'' @ sep # m @ sfx)"
    using match_digits_end_complete[OF cr(3)] by auto
next
  assume "digits m \<and> (\<exists>sep sfx. is_separator sep \<and> episode_suffix sfx \<and> s = ''tvdb'' @ sep # m @ sfx)"
  then obtain sep sfx where h: "digits m" "is_separator sep" "episode_suffix sfx" "s = ''tvdb'' @ sep # m @ sfx"
    by blast
  have "strip_prefix ''tvdb'' s = Some (sep # m @ sfx)" unfolding h(4) by (rule strip_prefix_append)
  with h(2) match_digits_end_sound[OF h(1,3)] show "TVDB_ID_REGEX s = Some m"
    by (simp add: TVDB_ID_REGEX_def is_separator_def)
qed

lemma IMDB_ID_REGEX_iff:
  "IMDB_ID_REGEX s = Some m \<longleftrightarrow>
     digits m \<and> (\<exists>sfx. episode_suffix sfx \<and> s = ''tt'' @ m @ sfx)"
proof
  assume a: "IMDB_ID_REGEX s = Some m"
  then obtain r where cr: "strip_prefix ''tt'' s = Some r" "match_digits_end r = Some m"
    by (auto simp: IMDB_ID_REGEX_def split: option.splits)
  from cr(1) have "s = ''tt'' @ r" by (simp only: strip_prefix_iff)
  then show "digits m \<and> (\<exists>sfx. episode_suffix sfx \<and> s = ''tt'' @ m @ sfx)"
    using match_digits_end_complete[OF cr(2)] by auto
next
  assume "digits m \<and> (\<exists>sfx. episode_suffix sfx \<and> s = ''tt'' @ m @ sfx)"
  then obtain sfx where h: "digits m" "episode_suffix sfx" "s = ''tt'' @ m @ sfx"
    by blast
  have "strip_prefix ''tt'' s = Some (m @ sfx)" unfolding h(3) by (rule strip_prefix_append)
  with match_digits_end_sound[OF h(1,2)] show "IMDB_ID_REGEX s = Some m"
    by (simp add: IMDB_ID_REGEX_def)
qed

lemma is_tmdb_id_iff: "is_tmdb_id s \<longleftrightarrow> (\<exists>m. TMDB_ID_REGEX s = Some m)"
  unfolding is_tmdb_id_def TMDB_ID_REGEX_iff by blast

lemma is_tvdb_id_iff: "is_tvdb_id s \<longleftrightarrow> (\<exists>m. TVDB_ID_REGEX s = Some m)"
  unfolding is_tvdb_id_def TVDB_ID_REGEX_iff by blast

lemma is_imdb_id_iff: "is_imdb_id s \<longleftrightarrow> (\<exists>m. IMDB_ID_REGEX s = Some m)"
  unfolding is_imdb_id_def IMDB_ID_REGEX_iff by blast

lemma is_bare_id_iff: "is_bare_id s \<longleftrightarrow> (\<exists>m. match_digits_end s = Some m)"
  unfolding is_bare_id_def match_digits_end_iff by blast

lemma TMDB_ID_REGEX_tt: "TMDB_ID_REGEX (''tt'' @ r) = None"
  by (simp add: TMDB_ID_REGEX_def)

lemma TMDB_ID_REGEX_tvdb: "TMDB_ID_REGEX (''tvdb'' @ r) = None"
  by (simp add: TMDB_ID_REGEX_def)

lemma IMDB_ID_REGEX_tvdb: "IMDB_ID_REGEX (''tvdb'' @ r) = None"
  by (simp add: IMDB_ID_REGEX_def)

lemma TMDB_ID_REGEX_match:
  "digits ds \<Longrightarrow> episode_suffix sfx \<Longrightarrow> is_separator sep \<Longrightarrow>
   TMDB_ID_REGEX (''tmdb'' @ sep # ds @ sfx) = Some ds"
  unfolding TMDB_ID_REGEX_iff by blast

lemma TVDB_ID_REGEX_match:
  "digits ds \<Longrightarrow> episode_suffix sfx \<Longrightarrow> is_separator sep \<Longrightarrow>
   TVDB_ID_REGEX (''tvdb'' @ sep # ds @ sfx) = Some ds"
  unfolding TVDB_ID_REGEX_iff by blast

lemma IMDB_ID_REGEX_match:
  "digits ds \<Longrightarrow> episode_suffix sfx \<Longrightarrow> IMDB_ID_REGEX (''tt'' @ ds @ sfx) = Some ds"
  unfolding IMDB_ID_REGEX_iff by blast

text \<open>
  C6 (as amended). For every well-formed identifier \<open>tt<digits>\<close>,
  \<open>tmdb[-:]<digits>\<close>, \<open>tvdb[-:]<digits>\<close>, with or without a
  \<open>:season:episode\<close> suffix, \<open>parseExternalId\<close> returns the kind and the value:
  the imdb value keeps \<open>tt\<close>, the tmdb and tvdb values are the digits, the suffix is
  dropped. \<open>getParsedId\<close> returns the same for imdb identifiers, for tmdb identifiers
  only when the content type is \<open>movie\<close> and for tvdb identifiers only when it is
  \<open>series\<close>, and null otherwise. The tmdb pattern is tried first, then imdb, then
  tvdb; the first match decides.
\<close>

theorem id_parsers_wellformed:
  assumes "digits ds" "episode_suffix sfx" "is_separator sep"
  shows "parseExternalId (''tt'' @ ds @ sfx) = Some \<lparr>idType = imdb, idValue = ''tt'' @ ds\<rparr> \<and>
         parseExternalId (''tmdb'' @ sep # ds @ sfx) = Some \<lparr>idType = tmdb, idValue = ds\<rparr> \<and>
         parseExternalId (''tvdb'' @ sep # ds @ sfx) = Some \<lparr>idType = tvdb, idValue = ds\<rparr> \<and>
         getParsedId (''tt'' @ ds @ sfx) ty = Some \<lparr>idType = imdb, idValue = ''tt'' @ ds\<rparr> \<and>
         getParsedId (''tmdb'' @ sep # ds @ sfx) ty =
           (if ty = ''movie'' then Some \<lparr>idType = tmdb, idValue = ds\<rparr> else None) \<and>
         getParsedId (''tvdb'' @ sep # ds @ sfx) ty =
           (if ty = ''series'' then Some \<lparr>idType = tvdb, idValue = ds\<rparr> else None) \<and>
         (\<forall>s m. TMDB_ID_REGEX s = Some m \<longrightarrow>
            parseExternalId s = Some \<lparr>idType = tmdb, idValue = m\<rparr>) \<and>
         (\<forall>s m. TMDB_ID_REGEX s = None \<and> IMDB_ID_REGEX s = Some m \<longrightarrow>
            parseExternalId s = Some \<lparr>idType = imdb, idValue = ''tt'' @ m\<rparr>) \<and>
         (\<forall>s m. TMDB_ID_REGEX s = None \<and> IMDB_ID_REGEX s = None \<and> TVDB_ID_REGEX s = Some m \<longrightarrow>
            parseExternalId s = Some \<lparr>idType = tvdb, idValue = m\<rparr>)"
proof -
  have tm: "TMDB_ID_REGEX (''tmdb'' @ sep # ds @ sfx) = Some ds"
    by (rule TMDB_ID_REGEX_match[OF assms])
  have tv: "TVDB_ID_REGEX (''tvdb'' @ sep # ds @ sfx) = Some ds"
    by (rule TVDB_ID_REGEX_match[OF assms])
  have im: "IMDB_ID_REGEX (''tt'' @ ds @ sfx) = Some ds"
    by (rule IMDB_ID_REGEX_match[OF assms(1,2)])
  have n1: "TMDB_ID_REGEX (''tt'' @ ds @ sfx) = None" by (rule TMDB_ID_REGEX_tt)
  have n2: "TMDB_ID_REGEX (''tvdb'' @ sep # ds @ sfx) = None" by (rule TMDB_ID_REGEX_tvdb)
  have n3: "IMDB_ID_REGEX (''tvdb'' @ sep # ds @ sfx) = None" by (rule IMDB_ID_REGEX_tvdb)
  have p1: "parseExternalId (''tt'' @ ds @ sfx) = Some \<lparr>idType = imdb, idValue = ''tt'' @ ds\<rparr>"
    by (simp only: parseExternalId_def n1 im option.case)
  have p2: "parseExternalId (''tmdb'' @ sep # ds @ sfx) = Some \<lparr>idType = tmdb, idValue = ds\<rparr>"
    by (simp only: parseExternalId_def tm option.case)
  have p3: "parseExternalId (''tvdb'' @ sep # ds @ sfx) = Some \<lparr>idType = tvdb, idValue = ds\<rparr>"
    by (simp only: parseExternalId_def n2 n3 tv option.case)
  have g1: "getParsedId (''tt'' @ ds @ sfx) ty = Some \<lparr>idType = imdb, idValue = ''tt'' @ ds\<rparr>"
    by (simp only: getParsedId_def n1 im option.case)
  have g2: "getParsedId (''tmdb'' @ sep # ds @ sfx) ty =
           (if ty = ''movie'' then Some \<lparr>idType = tmdb, idValue = ds\<rparr> else None)"
    by (simp only: getParsedId_def tm option.case)
  have g3: "getParsedId (''tvdb'' @ sep # ds @ sfx) ty =
           (if ty = ''series'' then Some \<lparr>idType = tvdb, idValue = ds\<rparr> else None)"
    by (simp only: getParsedId_def n2 n3 tv option.case)
  have o1: "\<forall>s m. TMDB_ID_REGEX s = Some m \<longrightarrow>
            parseExternalId s = Some \<lparr>idType = tmdb, idValue = m\<rparr>"
    by (simp add: parseExternalId_def)
  have o2: "\<forall>s m. TMDB_ID_REGEX s = None \<and> IMDB_ID_REGEX s = Some m \<longrightarrow>
            parseExternalId s = Some \<lparr>idType = imdb, idValue = ''tt'' @ m\<rparr>"
    by (simp add: parseExternalId_def)
  have o3: "\<forall>s m. TMDB_ID_REGEX s = None \<and> IMDB_ID_REGEX s = None \<and> TVDB_ID_REGEX s = Some m \<longrightarrow>
            parseExternalId s = Some \<lparr>idType = tvdb, idValue = m\<rparr>"
    by (simp add: parseExternalId_def)
  from p1 p2 p3 g1 g2 g3 o1 o2 o3 show ?thesis by (intro conjI)
qed

lemmas regex_eval = TMDB_ID_REGEX_def TVDB_ID_REGEX_def IMDB_ID_REGEX_def FanartTV_IMDB_ID_REGEX_def
  match_digits_end_def match_episode_end_def is_digit_def

theorem id_parsers_wellformed_witness:
  "digits ''0111161'' \<and> episode_suffix '':1:2'' \<and> is_separator CHR ''-'' \<and>
   parseExternalId ''tt0111161:1:2'' = Some \<lparr>idType = imdb, idValue = ''tt0111161''\<rparr> \<and>
   parseExternalId ''tmdb-0111161:1:2'' = Some \<lparr>idType = tmdb, idValue = ''0111161''\<rparr> \<and>
   parseExternalId ''tvdb-0111161:1:2'' = Some \<lparr>idType = tvdb, idValue = ''0111161''\<rparr> \<and>
   getParsedId ''tmdb-0111161:1:2'' ''movie'' = Some \<lparr>idType = tmdb, idValue = ''0111161''\<rparr> \<and>
   getParsedId ''tvdb-0111161:1:2'' ''series'' = Some \<lparr>idType = tvdb, idValue = ''0111161''\<rparr>"
proof -
  have d: "digits ''0111161''" by (simp add: digits_def is_digit_def)
  have "digits ''1'' \<and> digits ''2'' \<and> '':1:2'' = '':'' @ ''1'' @ '':'' @ ''2''"
    by (simp add: digits_def is_digit_def)
  then have e: "episode_suffix '':1:2''" unfolding episode_suffix_def by blast
  have s: "is_separator CHR ''-''" by (simp add: is_separator_def)
  from id_parsers_wellformed[OF d e s, of "''movie''"] id_parsers_wellformed[OF d e s, of "''series''"] d e s
  show ?thesis by simp
qed

text \<open>
  C6 as stated fails for \<open>getParsedId\<close>: a well-formed tmdb identifier with content
  type \<open>series\<close>, and a well-formed tvdb identifier with content type \<open>movie\<close>,
  are answered with null.
\<close>

theorem getParsedId_gate_counterexample:
  "is_tmdb_id ''tmdb-123'' \<and> getParsedId ''tmdb-123'' ''series'' = None \<and>
   is_tvdb_id ''tvdb:456:1:2'' \<and> getParsedId ''tvdb:456:1:2'' ''movie'' = None"
  by (simp add: is_tmdb_id_iff is_tvdb_id_iff getParsedId_def regex_eval)

text \<open>
  C7 (as amended). \<open>parseExternalId\<close> returns null exactly for the strings that match
  none of the three patterns, and \<open>getParsedId\<close> returns null for them too.
  \<open>parseImdbId\<close> returns null exactly for the strings that are neither
  \<open>tt<digits>\<close> nor bare digits (each with the optional suffix). The parsers are
  functions to an optional result: none of them throws.
\<close>

theorem id_parsers_reject:
  "(parseExternalId s = None) = (\<not> is_tmdb_id s \<and> \<not> is_imdb_id s \<and> \<not> is_tvdb_id s) \<and>
   (\<not> is_tmdb_id s \<and> \<not> is_imdb_id s \<and> \<not> is_tvdb_id s \<longrightarrow> getParsedId s ty = None) \<and>
   (parseImdbId s = None) = (\<not> is_imdb_id s \<and> \<not> is_bare_id s)"
proof -
  have a: "(parseExternalId s = None) = (\<not> is_tmdb_id s \<and> \<not> is_imdb_id s \<and> \<not> is_tvdb_id s)"
    by (auto simp: parseExternalId_def is_tmdb_id_iff is_imdb_id_iff is_tvdb_id_iff split: option.splits)
  have b: "\<not> is_tmdb_id s \<and> \<not> is_imdb_id s \<and> \<not> is_tvdb_id s \<longrightarrow> getParsedId s ty = None"
    by (auto simp: getParsedId_def is_tmdb_id_iff is_imdb_id_iff is_tvdb_id_iff split: option.splits)
  have c: "(parseImdbId s = None) = (\<not> is_imdb_id s \<and> \<not> is_bare_id s)"
    by (auto simp: parseImdbId_def FanartTV_IMDB_ID_REGEX_def is_imdb_id_iff is_bare_id_iff split: option.splits)
  from a b c show ?thesis by (intro conjI)
qed

theorem id_parsers_reject_witness:
  "\<not> is_tmdb_id ''tt12a'' \<and> \<not> is_imdb_id ''tt12a'' \<and> \<not> is_tvdb_id ''tt12a'' \<and>
   \<not> is_bare_id ''tt12a'' \<and>
   parseExternalId ''tt12a'' = None \<and> getParsedId ''tt12a'' ''movie'' = None \<and>
   parseImdbId ''tt12a'' = None"
proof -
  have h: "\<not> is_tmdb_id ''tt12a''" "\<not> is_imdb_id ''tt12a''" "\<not> is_tvdb_id ''tt12a''"
    "\<not> is_bare_id ''tt12a''"
    by (simp_all add: is_tmdb_id_iff is_imdb_id_iff is_tvdb_id_iff is_bare_id_iff regex_eval)
  from id_parsers_reject[of "''tt12a''" "''movie''"] h show ?thesis by simp
qed

text \<open>
  C7 as stated fails for \<open>parseImdbId\<close>: its pattern makes \<open>tt\<close> optional, so
  bare digits, which match none of the three patterns, parse to an imdb identifier.
\<close>

theorem parseImdbId_bare_digits_counterexample:
  "\<not> is_tmdb_id ''12345'' \<and> \<not> is_imdb_id ''12345'' \<and> \<not> is_tvdb_id ''12345'' \<and>
   parseImdbId ''12345'' = Some ''tt12345''"
  by (simp add: is_tmdb_id_iff is_imdb_id_iff is_tvdb_id_iff parseImdbId_def regex_eval)

subsection \<open>The poster orchestrator\<close>

lemmas io_defs = io_return_def io_lift_def io_bind_def io_catch_def invoke_def request_def

lemma is_url_truthy: "is_url v \<Longrightarrow> truthy (Some v)"
  by (cases v) (simp_all add: is_url_def)

lemma getPosterUrl_rpdb_url:
  assumes "rpdb self = Some p" "p type id' = (Inr v, t)" "truthy (Some v)"
  shows "ArtworkProvider_getPosterUrl self type id' = (Inr v, RpdbGetPosterUrl type id' # t)"
  using assms by (simp add: ArtworkProvider_getPosterUrl_def io_defs)

lemma getPosterUrl_rpdb_step:
  assumes "rpdb_no_url self type id' t1"
  shows "(case rpdb self of
            None \<Rightarrow> io_return JNull
          | Some p \<Rightarrow>
              io_catch (invoke (RpdbGetPosterUrl type id') (p type id')) (\<lambda>error. io_return JNull))
         = (Inr w, t1') \<Longrightarrow> \<not> truthy (Some w) \<and> t1' = t1"
  using assms
  by (auto simp: rpdb_no_url_def io_defs split: option.splits prod.splits sum.splits)

lemma getPosterUrl_rpdb_step_ex:
  assumes "rpdb_no_url self type id' t1"
  shows "\<exists>w. (case rpdb self of
            None \<Rightarrow> io_return JNull
          | Some p \<Rightarrow>
              io_catch (invoke (RpdbGetPosterUrl type id') (p type id')) (\<lambda>error. io_return JNull))
         = (Inr w, t1) \<and> \<not> truthy (Some w)"
  using assms
  by (auto simp: rpdb_no_url_def io_defs split: option.splits prod.splits sum.splits)

lemma getPosterUrl_fallback:
  assumes "rpdb_no_url self type id' t1"
  shows "ArtworkProvider_getPosterUrl self type id' =
           (case fanart self of
              None \<Rightarrow> (Inr JNull, t1)
            | Some f \<Rightarrow>
                (case f type id' of
                   (Inl e, t2) \<Rightarrow> (Inr JNull, t1 @ FanartGetPosterUrl type id' # t2)
                 | (Inr w, t2) \<Rightarrow>
                     (Inr (if truthy (Some w) then w else JNull),
                      t1 @ FanartGetPosterUrl type id' # t2)))"
proof -
  obtain w where w: "(case rpdb self of
            None \<Rightarrow> io_return JNull
          | Some p \<Rightarrow>
              io_catch (invoke (RpdbGetPosterUrl type id') (p type id')) (\<lambda>error. io_return JNull))
         = (Inr w, t1)" "\<not> truthy (Some w)"
    using getPosterUrl_rpdb_step_ex[OF assms] by blast
  show ?thesis
    unfolding ArtworkProvider_getPosterUrl_def w(1)
    using w(2)
    by (simp add: io_defs split: option.splits prod.splits sum.splits)
qed

text \<open>
  C3. For every content type and identifier, \<open>getPosterUrl\<close> asks RPDB first and
  Fanart.tv second. When RPDB returns a URL (any truthy value; a URL is one), that URL is
  the result and the RPDB call is the only event: Fanart.tv is not invoked. When RPDB is
  absent, throws or returns \<open>null\<close>, and Fanart.tv is configured, Fanart.tv is invoked
  once, after RPDB, and the result is its URL, or \<open>null\<close> when it returns none or
  throws. When neither yields a URL the result is \<open>null\<close>.
\<close>

theorem getPosterUrl_rpdb_then_fanart:
  "(rpdb self = Some p \<longrightarrow> p type id' = (Inr v, t) \<longrightarrow> truthy (Some v) \<longrightarrow>
      ArtworkProvider_getPosterUrl self type id' = (Inr v, RpdbGetPosterUrl type id' # t)) \<and>
   (rpdb_no_url self type id' t1 \<longrightarrow> fanart self = Some f \<longrightarrow> f type id' = (Inr w, t2) \<longrightarrow>
      truthy (Some w) \<longrightarrow>
      ArtworkProvider_getPosterUrl self type id' =
        (Inr w, t1 @ FanartGetPosterUrl type id' # t2)) \<and>
   (rpdb_no_url self type id' t1 \<longrightarrow> fanart self = Some f \<longrightarrow> f type id' = (Inr w, t2) \<longrightarrow>
      \<not> truthy (Some w) \<longrightarrow>
      ArtworkProvider_getPosterUrl self type id' =
        (Inr JNull, t1 @ FanartGetPosterUrl type id' # t2)) \<and>
   (rpdb_no_url self type id' t1 \<longrightarrow> fanart self = Some f \<longrightarrow> f type id' = (Inl e, t2) \<longrightarrow>
      ArtworkProvider_getPosterUrl self type id' =
        (Inr JNull, t1 @ FanartGetPosterUrl type id' # t2)) \<and>
   (rpdb_no_url self type id' t1 \<longrightarrow> fanart self = None \<longrightarrow>
      ArtworkProvider_getPosterUrl self type id' = (Inr JNull, t1)) \<and>
   (is_url v \<longrightarrow> truthy (Some v))"
proof (intro conjI impI)
  assume "rpdb self = Some p" "p type id' = (Inr v, t)" "truthy (Some v)"
  then show "ArtworkProvider_getPosterUrl self type id' = (Inr v, RpdbGetPosterUrl type id' # t)"
    by (rule getPosterUrl_rpdb_url)
next
  assume "rpdb_no_url self type id' t1" "fanart self = Some f" "f type id' = (Inr w, t2)"
    "truthy (Some w)"
  then show "ArtworkProvider_getPosterUrl self type id' =
        (Inr w, t1 @ FanartGetPosterUrl type id' # t2)"
    by (simp add: getPosterUrl_fallback)
next
  assume "rpdb_no_url self type id' t1" "fanart self = Some f" "f type id' = (Inr w, t2)"
    "\<not> truthy (Some w)"
  then show "ArtworkProvider_getPosterUrl self type id' =
        (Inr JNull, t1 @ FanartGetPosterUrl type id' # t2)"
    by (simp add: getPosterUrl_fallback)
next
  assume "rpdb_no_url self type id' t1" "fanart self = Some f" "f type id' = (Inl e, t2)"
  then show "ArtworkProvider_getPosterUrl self type id' =
        (Inr JNull, t1 @ FanartGetPosterUrl type id' # t2)"
    by (simp add: getPosterUrl_fallback)
next
  assume "rpdb_no_url self type id' t1" "fanart self = None"
  then show "ArtworkProvider_getPosterUrl self type id' = (Inr JNull, t1)"
    by (simp add: getPosterUrl_fallback)
next
  assume "is_url v"
  then show "truthy (Some v)" by (rule is_url_truthy)
qed

theorem getPosterUrl_rpdb_then_fanart_witness:
  "ArtworkProvider_getPosterUrl
     \<lparr>rpdb = Some (provider_url ''https://rpdb/p.jpg''), fanart = Some (provider_url ''https://fanart/p.jpg'')\<rparr>
     ''movie'' ''tt0111161''
     = (Inr (JStr ''https://rpdb/p.jpg''), [RpdbGetPosterUrl ''movie'' ''tt0111161'']) \<and>
   ArtworkProvider_getPosterUrl
     \<lparr>rpdb = Some provider_throws, fanart = Some (provider_url ''https://fanart/p.jpg'')\<rparr>
     ''movie'' ''tt0111161''
     = (Inr (JStr ''https://fanart/p.jpg''),
        [RpdbGetPosterUrl ''movie'' ''tt0111161'', FanartGetPosterUrl ''movie'' ''tt0111161'']) \<and>
   ArtworkProvider_getPosterUrl
     \<lparr>rpdb = Some provider_null, fanart = Some provider_throws\<rparr> ''movie'' ''tt0111161''
     = (Inr JNull,
        [RpdbGetPosterUrl ''movie'' ''tt0111161'', FanartGetPosterUrl ''movie'' ''tt0111161''])"
proof -
  have a: "ArtworkProvider_getPosterUrl
     \<lparr>rpdb = Some (provider_url ''https://rpdb/p.jpg''), fanart = Some (provider_url ''https://fanart/p.jpg'')\<rparr>
     ''movie'' ''tt0111161''
     = (Inr (JStr ''https://rpdb/p.jpg''), [RpdbGetPosterUrl ''movie'' ''tt0111161''])"
    using getPosterUrl_rpdb_then_fanart[where
        self = "\<lparr>rpdb = Some (provider_url ''https://rpdb/p.jpg''), fanart = Some (provider_url ''https://fanart/p.jpg'')\<rparr>"
        and p = "provider_url ''https://rpdb/p.jpg''" and type = "''movie''" and id' = "''tt0111161''"
        and v = "JStr ''https://rpdb/p.jpg''" and t = "[]"]
    by (simp add: provider_url_def)
  have b: "ArtworkProvider_getPosterUrl
     \<lparr>rpdb = Some provider_throws, fanart = Some (provider_url ''https://fanart/p.jpg'')\<rparr>
     ''movie'' ''tt0111161''
     = (Inr (JStr ''https://fanart/p.jpg''),
        [RpdbGetPosterUrl ''movie'' ''tt0111161'', FanartGetPosterUrl ''movie'' ''tt0111161''])"
    using getPosterUrl_rpdb_then_fanart[where
        self = "\<lparr>rpdb = Some provider_throws, fanart = Some (provider_url ''https://fanart/p.jpg'')\<rparr>"
        and type = "''movie''" and id' = "''tt0111161''"
        and ?t1.0 = "[RpdbGetPosterUrl ''movie'' ''tt0111161'']"
        and f = "provider_url ''https://fanart/p.jpg''"
        and w = "JStr ''https://fanart/p.jpg''" and ?t2.0 = "[]"]
    by (simp add: provider_url_def provider_throws_def rpdb_no_url_def)
  have c: "ArtworkProvider_getPosterUrl
     \<lparr>rpdb = Some provider_null, fanart = Some provider_throws\<rparr> ''movie'' ''tt0111161''
     = (Inr JNull,
        [RpdbGetPosterUrl ''movie'' ''tt0111161'', FanartGetPosterUrl ''movie'' ''tt0111161''])"
    using getPosterUrl_rpdb_then_fanart[where
        self = "\<lparr>rpdb = Some provider_null, fanart = Some provider_throws\<rparr>"
        and type = "''movie''" and id' = "''tt0111161''"
        and ?t1.0 = "[RpdbGetPosterUrl ''movie'' ''tt0111161'']"
        and f = "provider_throws" and e = "Thrown ''provider failed''" and ?t2.0 = "[]"]
    by (simp add: provider_null_def provider_throws_def rpdb_no_url_def)
  from a b c show ?thesis by (intro conjI)
qed

subsection \<open>Requests of the Fanart.tv lookups\<close>

lemma io_catch_Inr: "(\<And>e. \<exists>v. fst (h e) = Inr v) \<Longrightarrow> \<exists>v. fst (io_catch m h) = Inr v"
  by (cases m) (auto simp: io_catch_def split: sum.splits prod.splits, metis fst_conv)

lemma io_catch_null_snd: "snd (io_catch m (\<lambda>error. io_return v)) = snd m"
  by (cases m) (auto simp: io_catch_def io_return_def split: sum.splits)

lemma io_catch_null_fst:
  "fst (io_catch m (\<lambda>error. io_return v)) = (case fst m of Inl e \<Rightarrow> Inr v | Inr w \<Rightarrow> Inr w)"
  by (cases m) (auto simp: io_catch_def io_return_def split: sum.splits)

lemma io_bind_request_snd:
  "(\<And>response. snd (k response) = []) \<Longrightarrow>
   snd (io_bind (request env url timeout headers fwd) k) = [HttpRequest url]"
  by (cases "makeRequest env url timeout headers fwd")
     (auto simp: io_bind_def request_def split: prod.splits, metis snd_conv)

lemma io_bind_lift_snd: "(\<And>v. snd (k v) = []) \<Longrightarrow> snd (io_bind (io_lift r) k) = []"
proof (cases r)
  case (Inl e)
  then show ?thesis by (simp add: io_bind_def io_lift_def)
next
  case (Inr v)
  assume "\<And>v. snd (k v) = []"
  then have "snd (k v) = []" .
  with Inr show ?thesis by (simp add: io_bind_def io_lift_def split: prod.splits)
qed

lemma io_return_snd: "snd (io_return v) = []"
  by (simp add: io_return_def)

lemma io_lift_snd: "snd (io_lift r) = []"
  by (simp add: io_lift_def)

lemma getFanartLogo_events:
  "snd (getFanartLogo env self externalId type language) =
     (case fanartLogoRequest self externalId type of
        None \<Rightarrow> []
      | Some (endpoint, logoKey) \<Rightarrow> [HttpRequest endpoint])"
proof (cases "fanartLogoRequest self externalId type")
  case None
  then show ?thesis by (simp add: getFanartLogo_def io_catch_null_snd io_return_snd)
next
  case (Some a)
  obtain endpoint logoKey where a: "a = (endpoint, logoKey)" by (cases a)
  show ?thesis
    apply (simp only: getFanartLogo_def io_catch_null_snd Some a option.case prod.case)
    apply (rule io_bind_request_snd)
    apply (auto simp: io_return_snd intro!: io_bind_lift_snd split: prod.splits)
    done
qed

lemma getFanartLogo_resolves: "\<exists>v. fst (getFanartLogo env self externalId type language) = Inr v"
  unfolding getFanartLogo_def by (rule io_catch_Inr) (simp add: io_return_def)

lemma getFanartLogo_unsupported:
  "fanartLogoRequest self externalId type = None \<Longrightarrow>
   getFanartLogo env self externalId type language = (Inr JNull, [])"
  by (simp add: getFanartLogo_def io_catch_def io_return_def)

lemma fanartLogoRequest_None_iff:
  "fanartLogoRequest self externalId type = None \<longleftrightarrow>
     \<not> (type = ''movie'' \<and> idType externalId = tmdb) \<and>
     \<not> ((type = ''series'' \<or> type = ''tv'') \<and> idType externalId = tvdb)"
  by (simp add: fanartLogoRequest_def)

lemma FanartTV_getPosterUrl_events:
  "snd (FanartTV_getPosterUrl env apiKey type id') =
     (case parseImdbId id' of
        None \<Rightarrow> []
      | Some imdbId \<Rightarrow>
          (case fanartPosterEndpoint apiKey type imdbId of
             None \<Rightarrow> []
           | Some endpoint \<Rightarrow> [HttpRequest endpoint]))"
proof (cases "parseImdbId id'")
  case None
  then show ?thesis by (simp add: FanartTV_getPosterUrl_def io_return_snd)
next
  case (Some imdbId)
  show ?thesis
  proof (cases "fanartPosterEndpoint apiKey type imdbId")
    case None
    with Some show ?thesis
      by (simp add: FanartTV_getPosterUrl_def io_catch_null_snd io_return_snd)
  next
    case (Some endpoint)
    show ?thesis
      apply (simp only: FanartTV_getPosterUrl_def \<open>parseImdbId id' = Some imdbId\<close> Some
          option.case io_catch_null_snd)
      apply (rule io_bind_request_snd)
      apply (auto simp: io_return_snd io_lift_snd Let_def intro!: io_bind_lift_snd)
      done
  qed
qed

lemma FanartTV_getPosterUrl_resolves: "\<exists>v. fst (FanartTV_getPosterUrl env apiKey type id') = Inr v"
proof (cases "parseImdbId id'")
  case None
  then show ?thesis by (simp add: FanartTV_getPosterUrl_def io_return_def)
next
  case (Some imdbId)
  then show ?thesis
    unfolding FanartTV_getPosterUrl_def
    by (simp, intro io_catch_Inr) (simp add: io_return_def)
qed

lemma FanartTV_getPosterUrl_null:
  "parseImdbId id' = None \<or> (type \<noteq> ''movie'' \<and> type \<noteq> ''series'') \<Longrightarrow>
   FanartTV_getPosterUrl env apiKey type id' = (Inr JNull, [])"
  by (auto simp: FanartTV_getPosterUrl_def fanartPosterEndpoint_def io_catch_def io_return_def
      split: option.splits)

lemma FanartTV_part001_getPosterUrl_supported:
  assumes "FanartTV_part001_getPosterUrl apiKey type id' \<noteq> JNull"
  shows "(type = ''movie'' \<and> is_tmdb_id id') \<or> (type = ''series'' \<and> is_tvdb_id id')"
proof -
  from assms obtain parsedId where p: "getParsedId id' type = Some parsedId"
    and c: "(type = ''movie'' \<and> idType parsedId = tmdb) \<or> (type = ''series'' \<and> idType parsedId = tvdb)"
    by (auto simp: FanartTV_part001_getPosterUrl_def split: option.splits if_splits)
  from c show ?thesis
  proof
    assume "type = ''movie'' \<and> idType parsedId = tmdb"
    with p have "\<exists>m. TMDB_ID_REGEX id' = Some m"
      by (auto simp: getParsedId_def split: option.splits if_splits)
    with \<open>type = ''movie'' \<and> idType parsedId = tmdb\<close> show ?thesis by (simp add: is_tmdb_id_iff)
  next
    assume "type = ''series'' \<and> idType parsedId = tvdb"
    with p have "\<exists>m. TVDB_ID_REGEX id' = Some m"
      by (auto simp: getParsedId_def split: option.splits if_splits)
    with \<open>type = ''series'' \<and> idType parsedId = tvdb\<close> show ?thesis by (simp add: is_tvdb_id_iff)
  qed
qed

lemma FanartTV_part001_getPosterUrl_movie:
  "TMDB_ID_REGEX id' = Some m \<Longrightarrow>
   FanartTV_part001_getPosterUrl apiKey ''movie'' id' =
     JStr (''https://webservice.fanart.tv/v3/movies/'' @ m @ ''?api_key='' @ apiKey)"
  by (simp add: FanartTV_part001_getPosterUrl_def getParsedId_def)

lemma FanartTV_part001_getPosterUrl_series:
  "TMDB_ID_REGEX id' = None \<Longrightarrow> IMDB_ID_REGEX id' = None \<Longrightarrow> TVDB_ID_REGEX id' = Some m \<Longrightarrow>
   FanartTV_part001_getPosterUrl apiKey ''series'' id' =
     JStr (''https://webservice.fanart.tv/v3/tv/'' @ m @ ''?api_key='' @ apiKey)"
  by (simp add: FanartTV_part001_getPosterUrl_def getParsedId_def)

text \<open>
  C8 (as amended). \<open>LogoService.getFanartLogo\<close> builds a request exactly for a movie
  with a tmdb identifier and for a series or tv with a tvdb identifier; for every other
  combination it returns \<open>null\<close> and makes no request, and in the supported
  combinations it makes exactly one, to the endpoint chosen. \<open>getPosterUrl\<close> of the
  second client makes no request at all and builds an endpoint only for a movie with a
  tmdb identifier or a series with a tvdb identifier. \<open>getPosterUrl\<close> of
  \<open>fanart.ts\<close> reads the identifier as an IMDb identifier: it makes one request when
  the identifier parses and the type is movie or series, and returns \<open>null\<close> with no
  request otherwise.
\<close>

theorem fanart_request_when_supported:
  "(fanartLogoRequest self externalId type = None) =
      (\<not> (type = ''movie'' \<and> idType externalId = tmdb) \<and>
       \<not> ((type = ''series'' \<or> type = ''tv'') \<and> idType externalId = tvdb)) \<and>
   (fanartLogoRequest self externalId type = None \<longrightarrow>
      getFanartLogo env self externalId type language = (Inr JNull, [])) \<and>
   (\<forall>endpoint logoKey. fanartLogoRequest self externalId type = Some (endpoint, logoKey) \<longrightarrow>
      snd (getFanartLogo env self externalId type language) = [HttpRequest endpoint]) \<and>
   (FanartTV_part001_getPosterUrl apiKey type id' \<noteq> JNull \<longrightarrow>
      (type = ''movie'' \<and> is_tmdb_id id') \<or> (type = ''series'' \<and> is_tvdb_id id')) \<and>
   (\<forall>m. TMDB_ID_REGEX id' = Some m \<longrightarrow>
      FanartTV_part001_getPosterUrl apiKey ''movie'' id' =
        JStr (''https://webservice.fanart.tv/v3/movies/'' @ m @ ''?api_key='' @ apiKey)) \<and>
   (parseImdbId id' = None \<or> (type \<noteq> ''movie'' \<and> type \<noteq> ''series'') \<longrightarrow>
      FanartTV_getPosterUrl env apiKey type id' = (Inr JNull, [])) \<and>
   (\<forall>imdbId. parseImdbId id' = Some imdbId \<and> (type = ''movie'' \<or> type = ''series'') \<longrightarrow>
      (\<exists>endpoint. fanartPosterEndpoint apiKey type imdbId = Some endpoint \<and>
         snd (FanartTV_getPosterUrl env apiKey type id') = [HttpRequest endpoint]))"
proof (intro conjI impI allI)
  show "(fanartLogoRequest self externalId type = None) =
      (\<not> (type = ''movie'' \<and> idType externalId = tmdb) \<and>
       \<not> ((type = ''series'' \<or> type = ''tv'') \<and> idType externalId = tvdb))"
    by (rule fanartLogoRequest_None_iff)
next
  assume "fanartLogoRequest self externalId type = None"
  then show "getFanartLogo env self externalId type language = (Inr JNull, [])"
    by (rule getFanartLogo_unsupported)
next
  fix endpoint logoKey
  assume "fanartLogoRequest self externalId type = Some (endpoint, logoKey)"
  then show "snd (getFanartLogo env self externalId type language) = [HttpRequest endpoint]"
    by (simp add: getFanartLogo_events)
next
  assume "FanartTV_part001_getPosterUrl apiKey type id' \<noteq> JNull"
  then show "(type = ''movie'' \<and> is_tmdb_id id') \<or> (type = ''series'' \<and> is_tvdb_id id')"
    by (rule FanartTV_part001_getPosterUrl_supported)
next
  fix m assume "TMDB_ID_REGEX id' = Some m"
  then show "FanartTV_part001_getPosterUrl apiKey ''movie'' id' =
        JStr (''https://webservice.fanart.tv/v3/movies/'' @ m @ ''?api_key='' @ apiKey)"
    by (rule FanartTV_part001_getPosterUrl_movie)
next
  assume "parseImdbId id' = None \<or> (type \<noteq> ''movie'' \<and> type \<noteq> ''series'')"
  then show "FanartTV_getPosterUrl env apiKey type id' = (Inr JNull, [])"
    by (rule FanartTV_getPosterUrl_null)
next
  fix imdbId
  assume a: "parseImdbId id' = Some imdbId \<and> (type = ''movie'' \<or> type = ''series'')"
  then obtain endpoint where e: "fanartPosterEndpoint apiKey type imdbId = Some endpoint"
    by (auto simp: fanartPosterEndpoint_def)
  with a have "snd (FanartTV_getPosterUrl env apiKey type id') = [HttpRequest endpoint]"
    by (simp add: FanartTV_getPosterUrl_events)
  with e show "\<exists>endpoint. fanartPosterEndpoint apiKey type imdbId = Some endpoint \<and>
         snd (FanartTV_getPosterUrl env apiKey type id') = [HttpRequest endpoint]"
    by blast
qed

theorem fanart_request_when_supported_witness:
  "getFanartLogo offline \<lparr>tmdbAccessToken = None, fanartApiKey = Some ''KEY''\<rparr>
     \<lparr>idType = imdb, idValue = ''tt0111161''\<rparr> ''movie'' ''en'' = (Inr JNull, []) \<and>
   snd (getFanartLogo offline \<lparr>tmdbAccessToken = None, fanartApiKey = Some ''KEY''\<rparr>
     \<lparr>idType = tmdb, idValue = ''550''\<rparr> ''movie'' ''en'')
     = [HttpRequest ''https://webservice.fanart.tv/v3/movies/550?api_key=KEY''] \<and>
   FanartTV_part001_getPosterUrl ''KEY'' ''movie'' ''tmdb-550''
     = JStr ''https://webservice.fanart.tv/v3/movies/550?api_key=KEY'' \<and>
   FanartTV_getPosterUrl offline ''KEY'' ''tv'' ''tt0111161'' = (Inr JNull, [])"
proof -
  have r: "TMDB_ID_REGEX ''tmdb-550'' = Some ''550''" by (simp add: regex_eval)
  have q: "fanartLogoRequest \<lparr>tmdbAccessToken = None, fanartApiKey = Some ''KEY''\<rparr>
     \<lparr>idType = tmdb, idValue = ''550''\<rparr> ''movie''
     = Some (''https://webservice.fanart.tv/v3/movies/550?api_key=KEY'', ''movielogo'')"
    by (simp add: fanartLogoRequest_def key_string_def)
  have a: "getFanartLogo offline \<lparr>tmdbAccessToken = None, fanartApiKey = Some ''KEY''\<rparr>
     \<lparr>idType = imdb, idValue = ''tt0111161''\<rparr> ''movie'' ''en'' = (Inr JNull, [])"
    using fanart_request_when_supported[where
        self = "\<lparr>tmdbAccessToken = None, fanartApiKey = Some ''KEY''\<rparr>"
        and externalId = "\<lparr>idType = imdb, idValue = ''tt0111161''\<rparr>" and type = "''movie''"
        and env = offline and language = "''en''"]
    by simp
  have b: "snd (getFanartLogo offline \<lparr>tmdbAccessToken = None, fanartApiKey = Some ''KEY''\<rparr>
     \<lparr>idType = tmdb, idValue = ''550''\<rparr> ''movie'' ''en'')
     = [HttpRequest ''https://webservice.fanart.tv/v3/movies/550?api_key=KEY'']"
    using fanart_request_when_supported[where
        self = "\<lparr>tmdbAccessToken = None, fanartApiKey = Some ''KEY''\<rparr>"
        and externalId = "\<lparr>idType = tmdb, idValue = ''550''\<rparr>" and type = "''movie''"
        and env = offline and language = "''en''"] q
    by simp
  have c: "FanartTV_part001_getPosterUrl ''KEY'' ''movie'' ''tmdb-550''
     = JStr ''https://webservice.fanart.tv/v3/movies/550?api_key=KEY''"
    using fanart_request_when_supported[where id' = "''tmdb-550''" and apiKey = "''KEY''"] r
    by simp
  have d: "FanartTV_getPosterUrl offline ''KEY'' ''tv'' ''tt0111161'' = (Inr JNull, [])"
    using fanart_request_when_supported[where id' = "''tt0111161''" and apiKey = "''KEY''"
        and type = "''tv''" and env = offline]
    by simp
  from a b c d show ?thesis by (intro conjI)
qed

text \<open>
  C8 as stated fails for \<open>getPosterUrl\<close> of \<open>fanart.ts\<close>: for a movie with an imdb
  identifier, which is none of the supported combinations, it requests
  \<open>/v3/movies/tt0111161\<close> and returns the poster of the response.
\<close>

theorem fanart_imdb_request_counterexample:
  "parseExternalId ''tt0111161'' = Some \<lparr>idType = imdb, idValue = ''tt0111161''\<rparr> \<and>
   FanartTV_getPosterUrl (answering 200 poster_body) ''KEY'' ''movie'' ''tt0111161''
     = (Inr (JStr ''https://assets.fanart.tv/p.jpg''),
        [HttpRequest ''https://webservice.fanart.tv/v3/movies/tt0111161?api_key=KEY''])"
  by (simp add: parseExternalId_def FanartTV_getPosterUrl_def parseImdbId_def regex_eval
      fanartPosterEndpoint_def io_defs answering_def poster_body_def response_ok_def
      opt_prop_def to_number_def is_array_def array_elems_def prop_of_def js_or_def null_of_def)

subsection \<open>API key validation\<close>

lemma cache_get_set:
  "now \<le> now' \<Longrightarrow> now' < now + ttl \<Longrightarrow> cache_get (cache_set c now k v ttl) now' k = Some v"
  by (simp add: cache_get_def cache_set_def)

text \<open>
  C9 (as amended). \<open>validateApiKey\<close> of \<open>fanart.ts\<close>: a cached boolean is returned
  with no request; otherwise one request is made, a 2xx status caches and returns
  \<open>true\<close>, a 401 caches and returns \<open>false\<close>, every other status and a network
  error return \<open>false\<close> and leave the cache as it was; a later call within the TTL
  returns the cached boolean with no request. \<open>validateApiKey\<close> of the second client:
  a cached \<open>true\<close> is returned with no request; with nothing cached, one request is
  made and every status other than 401 caches and returns \<open>true\<close>, a 401 caches and
  returns \<open>false\<close>, and a network error returns \<open>false\<close> and caches nothing.
\<close>

theorem validateApiKey_by_status:
  "(cache_get c now apiKey = Some b \<longrightarrow>
      FanartTV_validateApiKey env ttl apiKey c now = ((Inr b, []), c)) \<and>
   (cache_get c now apiKey = None \<longrightarrow>
      makeRequest env (''https://webservice.fanart.tv/v3/movies/tt0111161?api_key='' @ apiKey) 5000 [] True = Inr r \<longrightarrow>
      FanartTV_validateApiKey env ttl apiKey c now =
        (if 200 \<le> status r \<and> status r \<le> 299 then
           ((Inr True, [HttpRequest (''https://webservice.fanart.tv/v3/movies/tt0111161?api_key='' @ apiKey)]),
            cache_set c now apiKey True ttl)
         else if status r = 401 then
           ((Inr False, [HttpRequest (''https://webservice.fanart.tv/v3/movies/tt0111161?api_key='' @ apiKey)]),
            cache_set c now apiKey False ttl)
         else
           ((Inr False, [HttpRequest (''https://webservice.fanart.tv/v3/movies/tt0111161?api_key='' @ apiKey)]),
            c))) \<and>
   (cache_get c now apiKey = None \<longrightarrow>
      makeRequest env (''https://webservice.fanart.tv/v3/movies/tt0111161?api_key='' @ apiKey) 5000 [] True = Inl e \<longrightarrow>
      FanartTV_validateApiKey env ttl apiKey c now =
        ((Inr False, [HttpRequest (''https://webservice.fanart.tv/v3/movies/tt0111161?api_key='' @ apiKey)]), c)) \<and>
   (now \<le> now' \<longrightarrow> now' < now + ttl \<longrightarrow>
      FanartTV_validateApiKey env' ttl apiKey (cache_set c now apiKey b ttl) now' =
        ((Inr b, []), cache_set c now apiKey b ttl)) \<and>
   (cache_get c now apiKey = Some True \<longrightarrow>
      FanartTV_part001_validateApiKey env ttl apiKey c now = ((Inr True, []), c)) \<and>
   (cache_get c now apiKey = None \<longrightarrow>
      makeRequest env (''https://webservice.fanart.tv/v3/movies/123456?api_key='' @ apiKey) 5000 [] True = Inr r \<longrightarrow>
      FanartTV_part001_validateApiKey env ttl apiKey c now =
        ((Inr (status r \<noteq> 401), [HttpRequest (''https://webservice.fanart.tv/v3/movies/123456?api_key='' @ apiKey)]),
         cache_set c now apiKey (status r \<noteq> 401) ttl)) \<and>
   (cache_get c now apiKey = None \<longrightarrow>
      makeRequest env (''https://webservice.fanart.tv/v3/movies/123456?api_key='' @ apiKey) 5000 [] True = Inl e \<longrightarrow>
      FanartTV_part001_validateApiKey env ttl apiKey c now =
        ((Inr False, [HttpRequest (''https://webservice.fanart.tv/v3/movies/123456?api_key='' @ apiKey)]), c)) \<and>
   (now \<le> now' \<longrightarrow> now' < now + ttl \<longrightarrow>
      FanartTV_part001_validateApiKey env' ttl apiKey (cache_set c now apiKey True ttl) now' =
        ((Inr True, []), cache_set c now apiKey True ttl))"
proof (intro conjI impI)
  assume "cache_get c now apiKey = Some b"
  then show "FanartTV_validateApiKey env ttl apiKey c now = ((Inr b, []), c)"
    by (simp add: FanartTV_validateApiKey_def io_return_def)
next
  assume "cache_get c now apiKey = None"
    "makeRequest env (''https://webservice.fanart.tv/v3/movies/tt0111161?api_key='' @ apiKey) 5000 [] True = Inr r"
  then show "FanartTV_validateApiKey env ttl apiKey c now =
        (if 200 \<le> status r \<and> status r \<le> 299 then
           ((Inr True, [HttpRequest (''https://webservice.fanart.tv/v3/movies/tt0111161?api_key='' @ apiKey)]),
            cache_set c now apiKey True ttl)
         else if status r = 401 then
           ((Inr False, [HttpRequest (''https://webservice.fanart.tv/v3/movies/tt0111161?api_key='' @ apiKey)]),
            cache_set c now apiKey False ttl)
         else
           ((Inr False, [HttpRequest (''https://webservice.fanart.tv/v3/movies/tt0111161?api_key='' @ apiKey)]),
            c))"
    by (simp add: FanartTV_validateApiKey_def request_def response_ok_def)
next
  assume "cache_get c now apiKey = None"
    "makeRequest env (''https://webservice.fanart.tv/v3/movies/tt0111161?api_key='' @ apiKey) 5000 [] True = Inl e"
  then show "FanartTV_validateApiKey env ttl apiKey c now =
        ((Inr False, [HttpRequest (''https://webservice.fanart.tv/v3/movies/tt0111161?api_key='' @ apiKey)]), c)"
    by (simp add: FanartTV_validateApiKey_def request_def)
next
  assume "now \<le> now'" "now' < now + ttl"
  then have "cache_get (cache_set c now apiKey b ttl) now' apiKey = Some b"
    by (rule cache_get_set)
  then show "FanartTV_validateApiKey env' ttl apiKey (cache_set c now apiKey b ttl) now' =
        ((Inr b, []), cache_set c now apiKey b ttl)"
    by (simp add: FanartTV_validateApiKey_def io_return_def)
next
  assume "cache_get c now apiKey = Some True"
  then show "FanartTV_part001_validateApiKey env ttl apiKey c now = ((Inr True, []), c)"
    by (simp add: FanartTV_part001_validateApiKey_def io_return_def)
next
  assume "cache_get c now apiKey = None"
    "makeRequest env (''https://webservice.fanart.tv/v3/movies/123456?api_key='' @ apiKey) 5000 [] True = Inr r"
  then show "FanartTV_part001_validateApiKey env ttl apiKey c now =
        ((Inr (status r \<noteq> 401), [HttpRequest (''https://webservice.fanart.tv/v3/movies/123456?api_key='' @ apiKey)]),
         cache_set c now apiKey (status r \<noteq> 401) ttl)"
    by (simp add: FanartTV_part001_validateApiKey_def request_def Let_def)
next
  assume "cache_get c now apiKey = None"
    "makeRequest env (''https://webservice.fanart.tv/v3/movies/123456?api_key='' @ apiKey) 5000 [] True = Inl e"
  then show "FanartTV_part001_validateApiKey env ttl apiKey c now =
        ((Inr False, [HttpRequest (''https://webservice.fanart.tv/v3/movies/123456?api_key='' @ apiKey)]), c)"
    by (simp add: FanartTV_part001_validateApiKey_def request_def)
next
  assume "now \<le> now'" "now' < now + ttl"
  then have "cache_get (cache_set c now apiKey True ttl) now' apiKey = Some True"
    by (rule cache_get_set)
  then show "FanartTV_part001_validateApiKey env' ttl apiKey (cache_set c now apiKey True ttl) now' =
        ((Inr True, []), cache_set c now apiKey True ttl)"
    by (simp add: FanartTV_part001_validateApiKey_def io_return_def)
qed

theorem validateApiKey_by_status_witness:
  "fst (FanartTV_validateApiKey (answering 200 JNull) 3600 ''KEY'' empty_cache 0)
     = (Inr True, [HttpRequest ''https://webservice.fanart.tv/v3/movies/tt0111161?api_key=KEY'']) \<and>
   cache_get (snd (FanartTV_validateApiKey (answering 200 JNull) 3600 ''KEY'' empty_cache 0)) 10 ''KEY''
     = Some True \<and>
   fst (FanartTV_validateApiKey (answering 401 JNull) 3600 ''KEY'' empty_cache 0)
     = (Inr False, [HttpRequest ''https://webservice.fanart.tv/v3/movies/tt0111161?api_key=KEY'']) \<and>
   cache_get (snd (FanartTV_validateApiKey (answering 401 JNull) 3600 ''KEY'' empty_cache 0)) 10 ''KEY''
     = Some False \<and>
   fst (FanartTV_validateApiKey (answering 500 JNull) 3600 ''KEY'' empty_cache 0)
     = (Inr False, [HttpRequest ''https://webservice.fanart.tv/v3/movies/tt0111161?api_key=KEY'']) \<and>
   cache_get (snd (FanartTV_validateApiKey (answering 500 JNull) 3600 ''KEY'' empty_cache 0)) 10 ''KEY''
     = None \<and>
   FanartTV_validateApiKey offline 3600 ''KEY'' (cache_set empty_cache 0 ''KEY'' False 3600) 10
     = ((Inr False, []), cache_set empty_cache 0 ''KEY'' False 3600) \<and>
   fst (FanartTV_part001_validateApiKey (answering 401 JNull) 3600 ''KEY'' empty_cache 0)
     = (Inr False, [HttpRequest ''https://webservice.fanart.tv/v3/movies/123456?api_key=KEY'']) \<and>
   cache_get (snd (FanartTV_part001_validateApiKey (answering 401 JNull) 3600 ''KEY'' empty_cache 0)) 10 ''KEY''
     = Some False \<and>
   FanartTV_part001_validateApiKey offline 3600 ''KEY'' (cache_set empty_cache 0 ''KEY'' True 3600) 10
     = ((Inr True, []), cache_set empty_cache 0 ''KEY'' True 3600)"
proof -
  have g: "cache_get (empty_cache :: bool cache) 0 ''KEY'' = None"
    by (simp add: cache_get_def empty_cache_def)
  have m: "\<And>st. makeRequest (answering st JNull)
             (''https://webservice.fanart.tv/v3/movies/tt0111161?api_key='' @ ''KEY'') 5000 [] True
           = Inr \<lparr>status = st, json_body = Inr JNull\<rparr>"
    by (simp add: answering_def)
  note t = validateApiKey_by_status[where c = "empty_cache" and now = 0 and apiKey = "''KEY''"
      and ttl = 3600, THEN conjunct2, THEN conjunct1, rule_format, OF g m]
  have a: "FanartTV_validateApiKey (answering 200 JNull) 3600 ''KEY'' empty_cache 0
     = ((Inr True, [HttpRequest ''https://webservice.fanart.tv/v3/movies/tt0111161?api_key=KEY'']),
        cache_set empty_cache 0 ''KEY'' True 3600)"
    using t[of 200] by simp
  have b: "FanartTV_validateApiKey (answering 401 JNull) 3600 ''KEY'' empty_cache 0
     = ((Inr False, [HttpRequest ''https://webservice.fanart.tv/v3/movies/tt0111161?api_key=KEY'']),
        cache_set empty_cache 0 ''KEY'' False 3600)"
    using t[of 401] by simp
  have c: "FanartTV_validateApiKey (answering 500 JNull) 3600 ''KEY'' empty_cache 0
     = ((Inr False, [HttpRequest ''https://webservice.fanart.tv/v3/movies/tt0111161?api_key=KEY'']),
        empty_cache)"
    using t[of 500] by simp
  have d: "FanartTV_validateApiKey offline 3600 ''KEY'' (cache_set empty_cache 0 ''KEY'' False 3600) 10
     = ((Inr False, []), cache_set empty_cache 0 ''KEY'' False 3600)"
    using validateApiKey_by_status[where c = "empty_cache" and now = 0 and now' = 10
        and apiKey = "''KEY''" and ttl = 3600 and b = False and env' = offline]
    by simp
  have m2: "makeRequest (answering 401 JNull)
             (''https://webservice.fanart.tv/v3/movies/123456?api_key='' @ ''KEY'') 5000 [] True
           = Inr \<lparr>status = 401, json_body = Inr JNull\<rparr>"
    by (simp add: answering_def)
  have e: "FanartTV_part001_validateApiKey (answering 401 JNull) 3600 ''KEY'' empty_cache 0
     = ((Inr False, [HttpRequest ''https://webservice.fanart.tv/v3/movies/123456?api_key=KEY'']),
        cache_set empty_cache 0 ''KEY'' False 3600)"
    using validateApiKey_by_status[where c = "empty_cache" and now = 0 and apiKey = "''KEY''"
      and ttl = 3600 and env = "answering 401 JNull"
      and r = "\<lparr>status = 401, json_body = Inr JNull\<rparr>"] g m2
    by simp
  have f: "FanartTV_part001_validateApiKey offline 3600 ''KEY'' (cache_set empty_cache 0 ''KEY'' True 3600) 10
     = ((Inr True, []), cache_set empty_cache 0 ''KEY'' True 3600)"
    using validateApiKey_by_status[where c = "empty_cache" and now = 0 and now' = 10
        and apiKey = "''KEY''" and ttl = 3600 and env' = offline]
    by simp
  show ?thesis
    unfolding a b c d e f
    by (simp add: cache_get_def cache_set_def empty_cache_def)
qed

text \<open>
  C9 as stated fails for the second client: on a status 500 it returns \<open>true\<close> and
  caches \<open>true\<close>, where the claim has \<open>false\<close> and no write.
\<close>

theorem validateApiKey_part001_counterexample:
  "fst (FanartTV_part001_validateApiKey (answering 500 JNull) 3600 ''KEY'' empty_cache 0)
     = (Inr True, [HttpRequest ''https://webservice.fanart.tv/v3/movies/123456?api_key=KEY'']) \<and>
   cache_get (snd (FanartTV_part001_validateApiKey (answering 500 JNull) 3600 ''KEY'' empty_cache 0))
     10 ''KEY'' = Some True"
  by (simp add: FanartTV_part001_validateApiKey_def request_def answering_def cache_get_def
      cache_set_def empty_cache_def)

subsection \<open>The logo lookup\<close>

lemma yields_return: "Q v \<Longrightarrow> yields Q (io_return v)"
  by (simp add: yields_def io_return_def)

lemma yields_bind: "(\<And>x. yields Q (k x)) \<Longrightarrow> yields Q (io_bind m k)"
proof -
  assume k: "\<And>x. yields Q (k x)"
  obtain r t where m: "m = (r, t)" by (cases m)
  show ?thesis
  proof (cases r)
    case (Inl e)
    with m show ?thesis by (simp add: yields_def io_bind_def)
  next
    case (Inr x)
    obtain r' t' where kx: "k x = (r', t')" by (cases "k x")
    from k[of x] kx have "\<forall>v. r' = Inr v \<longrightarrow> Q v" by (simp add: yields_def)
    with m Inr kx show ?thesis by (simp add: yields_def io_bind_def)
  qed
qed

lemma yields_catch:
  "yields Q m \<Longrightarrow> (\<And>e. yields Q (h e)) \<Longrightarrow> yields Q (io_catch m h)"
proof -
  assume q: "yields Q m" and h: "\<And>e. yields Q (h e)"
  obtain r t where m: "m = (r, t)" by (cases m)
  show ?thesis
  proof (cases r)
    case (Inl e)
    obtain r' t' where he: "h e = (r', t')" by (cases "h e")
    from h[of e] he have "\<forall>v. r' = Inr v \<longrightarrow> Q v" by (simp add: yields_def)
    with m Inl he show ?thesis by (simp add: yields_def io_catch_def)
  next
    case (Inr x)
    with m q show ?thesis by (simp add: yields_def io_catch_def)
  qed
qed

lemma yieldsD: "yields Q m \<Longrightarrow> fst m = Inr v \<Longrightarrow> Q v"
  by (simp add: yields_def)

lemma is_url_JStr: "is_url (JStr (c # s))"
  by (simp add: is_url_def)

lemma getTmdbLogo_yields:
  "yields (\<lambda>v. v = JNull \<or> is_url v) (getTmdbLogo env self externalId type language)"
  unfolding getTmdbLogo_def
  by (intro yields_catch yields_bind yields_return)
     (auto intro!: yields_bind yields_return simp: is_url_JStr split: prod.splits)

lemma getTmdbLogo_resolves: "\<exists>v. fst (getTmdbLogo env self externalId type language) = Inr v"
  unfolding getTmdbLogo_def by (rule io_catch_Inr) (simp add: io_return_def)

lemma getFanartLogo_truthy:
  "yields (\<lambda>v. v = JNull \<or> truthy (Some v)) (getFanartLogo env self externalId type language)"
  unfolding getFanartLogo_def
  by (intro yields_catch yields_bind yields_return)
     (auto intro!: yields_bind yields_return simp: js_or_def null_of_def split: prod.splits option.splits)

lemma yields_bind_eq: "(\<And>x t. m = (Inr x, t) \<Longrightarrow> yields Q (k x)) \<Longrightarrow> yields Q (io_bind m k)"
proof -
  assume k: "\<And>x t. m = (Inr x, t) \<Longrightarrow> yields Q (k x)"
  obtain r t where m: "m = (r, t)" by (cases m)
  show ?thesis
  proof (cases r)
    case (Inl e)
    with m show ?thesis by (simp add: yields_def io_bind_def)
  next
    case (Inr x)
    obtain r' t' where kx: "k x = (r', t')" by (cases "k x")
    from k[of x t] m Inr kx have "\<forall>v. r' = Inr v \<longrightarrow> Q v" by (simp add: yields_def)
    with m Inr kx show ?thesis by (simp add: yields_def io_bind_def)
  qed
qed

lemma selectBestLogo_member:
  assumes "selectBestLogo env logos p k = Inr (best, arr)" "logos \<noteq> []"
  shows "best \<in> set logos"
proof -
  from assms obtain srt where a: "array_sort (compareLogos env p k) logos = Inr srt"
    by (auto simp: selectBestLogo_def split: sum.splits)
  have ms: "mset srt = mset logos" by (rule array_sort_mset[OF a])
  with assms(2) obtain b rest where br: "srt = b # rest" by (cases srt) auto
  with assms a have "best = b" by (simp add: selectBestLogo_def)
  moreover have "set srt = set logos" using ms by (rule mset_eq_setD)
  ultimately show ?thesis using br by auto
qed

lemma url_of_selected:
  assumes "fanart_urls_are_strings env"
    and "makeRequest env url timeout headers fwd = Inr response"
    and "json_body response = Inr data"
    and "get_prop data k = Inr logos" "is_array logos" "array_elems logos \<noteq> []"
    and "selectBestLogo env (array_elems logos) language key = Inr (selectedLogo, sortedLogos)"
  shows "null_of (js_or (opt_prop (Some selectedLogo) ''url'') (Some JNull)) = JNull \<or>
         is_url (null_of (js_or (opt_prop (Some selectedLogo) ''url'') (Some JNull)))"
proof -
  from assms(5) obtain xs where xs: "logos = Some (JArr xs)"
    by (auto simp: is_array_def split: option.splits json.splits)
  then have el: "array_elems logos = xs" by (simp add: array_elems_def)
  have mem: "selectedLogo \<in> set xs"
    using selectBestLogo_member[OF assms(7)] assms(6) el by simp
  show ?thesis
  proof (cases "truthy (opt_prop (Some selectedLogo) ''url'')")
    case False
    then show ?thesis by (simp add: js_or_def null_of_def)
  next
    case True
    then obtain v where v: "opt_prop (Some selectedLogo) ''url'' = Some v"
      by (cases "opt_prop (Some selectedLogo) ''url''") auto
    then have g: "get_prop selectedLogo ''url'' = Inr (Some v)"
      by (cases selectedLogo) (auto simp: opt_prop_def split: sum.splits)
    from assms(1,2,3) assms(4)[unfolded xs] mem g obtain u where u: "v = JStr u"
      unfolding fanart_urls_are_strings_def by blast
    with True v have "u \<noteq> []" by simp
    with u v True show ?thesis by (simp add: js_or_def null_of_def is_url_def)
  qed
qed

lemma getFanartLogo_url:
  assumes "fanart_urls_are_strings env"
  shows "yields (\<lambda>v. v = JNull \<or> is_url v) (getFanartLogo env self externalId type language)"
  unfolding getFanartLogo_def
proof (intro yields_catch yields_return disjI1 refl)
  show "yields (\<lambda>v. v = JNull \<or> is_url v)
     (case fanartLogoRequest self externalId type of
        None \<Rightarrow> io_return JNull
      | Some (endpoint, logoKey) \<Rightarrow>
          io_bind (request env endpoint 10000 [] False) (\<lambda>response.
            if \<not> response_ok response then io_return JNull
            else
              io_bind (io_lift (json_body response)) (\<lambda>data.
              io_bind (io_lift (get_prop data logoKey)) (\<lambda>logos.
                if \<not> truthy logos \<or> \<not> is_array logos \<or> array_elems logos = [] then io_return JNull
                else
                  io_bind (io_lift (selectBestLogo env (array_elems logos) language ''lang''))
                    (\<lambda>(selectedLogo, sortedLogos).
                       io_return (null_of (js_or (opt_prop (Some selectedLogo) ''url'') (Some JNull))))))))"
  proof (cases "fanartLogoRequest self externalId type")
    case None
    then show ?thesis by (simp add: yields_return)
  next
    case (Some a)
    obtain endpoint logoKey where a: "a = (endpoint, logoKey)" by (cases a)
    show ?thesis
      unfolding Some a option.case prod.case
    proof (rule yields_bind_eq)
      fix response t
      assume r: "request env endpoint 10000 [] False = (Inr response, t)"
      then have mr: "makeRequest env endpoint 10000 [] False = Inr response"
        by (simp add: request_def)
      show "yields (\<lambda>v. v = JNull \<or> is_url v)
          (if \<not> response_ok response then io_return JNull
           else
             io_bind (io_lift (json_body response)) (\<lambda>data.
             io_bind (io_lift (get_prop data logoKey)) (\<lambda>logos.
               if \<not> truthy logos \<or> \<not> is_array logos \<or> array_elems logos = [] then io_return JNull
               else
                 io_bind (io_lift (selectBestLogo env (array_elems logos) language ''lang''))
                   (\<lambda>(selectedLogo, sortedLogos).
                      io_return (null_of (js_or (opt_prop (Some selectedLogo) ''url'') (Some JNull)))))))"
      proof (cases "response_ok response")
        case False
        then show ?thesis by (simp add: yields_return)
      next
        case True
        have "yields (\<lambda>v. v = JNull \<or> is_url v)
          (io_bind (io_lift (json_body response)) (\<lambda>data.
             io_bind (io_lift (get_prop data logoKey)) (\<lambda>logos.
               if \<not> truthy logos \<or> \<not> is_array logos \<or> array_elems logos = [] then io_return JNull
               else
                 io_bind (io_lift (selectBestLogo env (array_elems logos) language ''lang''))
                   (\<lambda>(selectedLogo, sortedLogos).
                      io_return (null_of (js_or (opt_prop (Some selectedLogo) ''url'') (Some JNull)))))))"
        proof (rule yields_bind_eq)
          fix data t'
          assume "io_lift (json_body response) = (Inr data, t')"
          then have jb: "json_body response = Inr data" by (simp add: io_lift_def)
          show "yields (\<lambda>v. v = JNull \<or> is_url v)
             (io_bind (io_lift (get_prop data logoKey)) (\<lambda>logos.
               if \<not> truthy logos \<or> \<not> is_array logos \<or> array_elems logos = [] then io_return JNull
               else
                 io_bind (io_lift (selectBestLogo env (array_elems logos) language ''lang''))
                   (\<lambda>(selectedLogo, sortedLogos).
                      io_return (null_of (js_or (opt_prop (Some selectedLogo) ''url'') (Some JNull))))))"
          proof (rule yields_bind_eq)
            fix logos t''
            assume "io_lift (get_prop data logoKey) = (Inr logos, t'')"
            then have gp: "get_prop data logoKey = Inr logos" by (simp add: io_lift_def)
            show "yields (\<lambda>v. v = JNull \<or> is_url v)
               (if \<not> truthy logos \<or> \<not> is_array logos \<or> array_elems logos = [] then io_return JNull
               else
                 io_bind (io_lift (selectBestLogo env (array_elems logos) language ''lang''))
                   (\<lambda>(selectedLogo, sortedLogos).
                      io_return (null_of (js_or (opt_prop (Some selectedLogo) ''url'') (Some JNull)))))"
            proof (cases "\<not> truthy logos \<or> \<not> is_array logos \<or> array_elems logos = []")
              case True
              then show ?thesis by (simp add: yields_return)
            next
              case False
              then have ia: "is_array logos" and ne: "array_elems logos \<noteq> []" by simp_all
              have "yields (\<lambda>v. v = JNull \<or> is_url v)
                 (io_bind (io_lift (selectBestLogo env (array_elems logos) language ''lang''))
                   (\<lambda>(selectedLogo, sortedLogos).
                      io_return (null_of (js_or (opt_prop (Some selectedLogo) ''url'') (Some JNull)))))"
              proof (rule yields_bind_eq)
                fix x t3
                assume "io_lift (selectBestLogo env (array_elems logos) language ''lang'') = (Inr x, t3)"
                then have sb: "selectBestLogo env (array_elems logos) language ''lang'' = Inr x"
                  by (simp add: io_lift_def)
                obtain selectedLogo sortedLogos where x: "x = (selectedLogo, sortedLogos)" by (cases x)
                from url_of_selected[OF assms mr jb gp ia ne sb[unfolded x]]
                show "yields (\<lambda>v. v = JNull \<or> is_url v)
                   (case x of (selectedLogo, sortedLogos) \<Rightarrow>
                      io_return (null_of (js_or (opt_prop (Some selectedLogo) ''url'') (Some JNull))))"
                  unfolding x prod.case by (intro yields_return)
              qed
              with False show ?thesis by simp
            qed
          qed
        qed
        with True show ?thesis by simp
      qed
    qed
  qed
qed

lemma getLogo_hit:
  "cache_get c now (logoCacheKey id' type language) = Some v \<Longrightarrow>
   getLogo env self c now id' type language = ((Inr v, []), c)"
  by (simp add: getLogo_def io_return_def)

lemma getLogo_unparseable:
  "cache_get c now (logoCacheKey id' type language) = None \<Longrightarrow> parseExternalId id' = None \<Longrightarrow>
   getLogo env self c now id' type language =
     ((Inr JNull, [ParseExternalId id']),
      cache_set c now (logoCacheKey id' type language) JNull LOGO_CACHE_TTL)"
  by (simp add: getLogo_def)

lemma fanart_step_resolves: "\<exists>v t. fanart_step env self x type language = (Inr v, t)"
proof -
  have "\<exists>v. fst (fanart_step env self x type language) = Inr v"
    using getFanartLogo_resolves[of env self x type language]
    by (cases "configured (fanartApiKey self)") (simp_all add: fanart_step_def io_return_def)
  then show ?thesis by (cases "fanart_step env self x type language") auto
qed

lemma tmdb_step_resolves: "\<exists>v t. tmdb_step env self x type language = (Inr v, t)"
proof -
  have "\<exists>v. fst (tmdb_step env self x type language) = Inr v"
    using getTmdbLogo_resolves[of env self x type language]
    by (cases "configured (tmdbAccessToken self)") (simp_all add: tmdb_step_def io_return_def)
  then show ?thesis by (cases "tmdb_step env self x type language") auto
qed

lemma getLogo_parsed:
  assumes miss: "cache_get c now (logoCacheKey id' type language) = None"
    and parsed: "parseExternalId id' = Some x"
    and f: "fanart_step env self x type language = (Inr logo, t1)"
    and t: "tmdb_step env self x type language = (Inr logo2, t2)"
  shows "getLogo env self c now id' type language =
     (if truthy (Some logo) then
        ((Inr logo, ParseExternalId id' # t1),
         cache_set c now (logoCacheKey id' type language) logo LOGO_CACHE_TTL)
      else if truthy (Some logo2) then
        ((Inr logo2, ParseExternalId id' # t1 @ t2),
         cache_set c now (logoCacheKey id' type language) logo2 LOGO_CACHE_TTL)
      else
        ((Inr JNull, ParseExternalId id' # t1 @ t2),
         cache_set c now (logoCacheKey id' type language) JNull LOGO_CACHE_TTL))"
proof (cases "truthy (Some logo)")
  case True
  with miss parsed f show ?thesis
    by (simp add: getLogo_def fanart_step_def)
next
  case False
  have "(if configured (tmdbAccessToken self) then getTmdbLogo env self x type language
         else io_return logo) = (Inr (if configured (tmdbAccessToken self) then logo2 else logo), t2)"
    using t by (auto simp: tmdb_step_def io_return_def)
  moreover have "\<not> configured (tmdbAccessToken self) \<Longrightarrow> \<not> truthy (Some logo2)"
    using t by (auto simp: tmdb_step_def io_return_def)
  ultimately show ?thesis
    using miss parsed f False
    by (cases "configured (tmdbAccessToken self)") (simp_all add: getLogo_def fanart_step_def)
qed

lemma getLogo_miss:
  assumes miss: "cache_get c now (logoCacheKey id' type language) = None"
  shows "\<exists>v t. getLogo env self c now id' type language =
           ((Inr v, ParseExternalId id' # t),
            cache_set c now (logoCacheKey id' type language) v LOGO_CACHE_TTL)"
proof (cases "parseExternalId id'")
  case None
  with getLogo_unparseable[OF miss None] show ?thesis by blast
next
  case (Some x)
  obtain logo t1 where f: "fanart_step env self x type language = (Inr logo, t1)"
    using fanart_step_resolves by blast
  obtain logo2 t2 where t: "tmdb_step env self x type language = (Inr logo2, t2)"
    using tmdb_step_resolves by blast
  show ?thesis
    unfolding getLogo_parsed[OF miss Some f t] by auto
qed

lemma getLogo_resolves: "\<exists>v. fst (fst (getLogo env self c now id' type language)) = Inr v"
proof (cases "cache_get c now (logoCacheKey id' type language)")
  case None
  from getLogo_miss[OF None] show ?thesis by (metis fst_conv)
next
  case (Some v)
  then show ?thesis by (simp add: getLogo_hit)
qed

lemma convertToTmdbId_resolves: "\<exists>v. fst (convertToTmdbId env self externalId type) = Inr v"
  unfolding convertToTmdbId_def by (rule io_catch_Inr) (simp add: io_return_def)

lemma getPosterUrl_resolves: "\<exists>v. fst (ArtworkProvider_getPosterUrl self type id') = Inr v"
proof -
  have a: "\<exists>w t. (case rpdb self of
            None \<Rightarrow> io_return JNull
          | Some p \<Rightarrow>
              io_catch (invoke (RpdbGetPosterUrl type id') (p type id')) (\<lambda>error. io_return JNull))
         = (Inr w, t)"
    by (auto simp: io_defs split: option.splits prod.splits sum.splits)
  have b: "\<exists>w t. (case fanart self of
            None \<Rightarrow> io_return JNull
          | Some p \<Rightarrow>
              io_catch (invoke (FanartGetPosterUrl type id') (p type id')) (\<lambda>error. io_return JNull))
         = (Inr w, t)"
    by (auto simp: io_defs split: option.splits prod.splits sum.splits)
  from a obtain w t where w: "(case rpdb self of
            None \<Rightarrow> io_return JNull
          | Some p \<Rightarrow>
              io_catch (invoke (RpdbGetPosterUrl type id') (p type id')) (\<lambda>error. io_return JNull))
         = (Inr w, t)" by blast
  from b obtain w' t' where w': "(case fanart self of
            None \<Rightarrow> io_return JNull
          | Some p \<Rightarrow>
              io_catch (invoke (FanartGetPosterUrl type id') (p type id')) (\<lambda>error. io_return JNull))
         = (Inr w', t')" by blast
  show ?thesis
    unfolding ArtworkProvider_getPosterUrl_def w w'
    by (simp add: io_bind_def io_return_def)
qed

lemma getPosterUrl_rpdb_throws:
  assumes "rpdb self = Some p" "p type id' = (Inl e, t)" "fanart self = Some f" "f type id' = (r, t2)"
  shows "ArtworkProvider_getPosterUrl self type id' =
           (Inr (case r of Inl e' \<Rightarrow> JNull | Inr w \<Rightarrow> if truthy (Some w) then w else JNull),
            RpdbGetPosterUrl type id' # t @ FanartGetPosterUrl type id' # t2)"
proof -
  have "rpdb_no_url self type id' (RpdbGetPosterUrl type id' # t)"
    using assms(1,2) by (simp add: rpdb_no_url_def)
  from getPosterUrl_fallback[OF this] assms(3,4) show ?thesis
    by (cases r) simp_all
qed

lemma getPosterUrl_value:
  assumes "fst (ArtworkProvider_getPosterUrl self type id') = Inr v" "v \<noteq> JNull"
  shows "truthy (Some v) \<and>
         (\<exists>p t. (rpdb self = Some p \<or> fanart self = Some p) \<and> p type id' = (Inr v, t))"
proof (cases "\<exists>p t. rpdb self = Some p \<and> p type id' = (Inr v, t) \<and> truthy (Some v)")
  case True
  then show ?thesis by blast
next
  case False
  have "\<exists>t1. rpdb_no_url self type id' t1"
  proof (cases "rpdb self")
    case None
    then show ?thesis by (simp add: rpdb_no_url_def)
  next
    case (Some p)
    obtain r t where pr: "p type id' = (r, t)" by (cases "p type id'")
    show ?thesis
    proof (cases r)
      case (Inl e)
      with Some pr show ?thesis by (simp add: rpdb_no_url_def)
    next
      case (Inr w)
      show ?thesis
      proof (cases "truthy (Some w)")
        case True
        from getPosterUrl_rpdb_url[OF Some pr[unfolded Inr] True] assms(1) have "w = v" by simp
        with False Some pr Inr True show ?thesis by blast
      next
        case False
        with Some pr Inr show ?thesis by (simp add: rpdb_no_url_def)
      qed
    qed
  qed
  then obtain t1 where n: "rpdb_no_url self type id' t1" by blast
  from getPosterUrl_fallback[OF n] assms show ?thesis
    by (auto split: option.splits prod.splits sum.splits if_splits)
qed

lemma tmdb_value_fix:
  "fst (getTmdbLogo env self x type language) = Inr w \<Longrightarrow> (if truthy (Some w) then w else JNull) = w"
  using yieldsD[OF getTmdbLogo_yields, of env self x type language w] is_url_truthy by auto

lemma getFanartLogo_request_throws:
  assumes "fanartLogoRequest self x type = Some (endpoint, k)"
    and "makeRequest env endpoint 10000 [] False = Inl e"
  shows "getFanartLogo env self x type language = (Inr JNull, [HttpRequest endpoint])"
  using assms by (simp add: getFanartLogo_def io_defs)

lemma getFanartLogo_json_throws:
  assumes "fanartLogoRequest self x type = Some (endpoint, k)"
    and "makeRequest env endpoint 10000 [] False = Inr r" "response_ok r" "json_body r = Inl e"
  shows "getFanartLogo env self x type language = (Inr JNull, [HttpRequest endpoint])"
  using assms by (simp add: getFanartLogo_def io_defs)

lemma getLogo_fallback:
  assumes miss: "cache_get c now (logoCacheKey id' type language) = None"
    and parsed: "parseExternalId id' = Some x"
    and cf: "configured (fanartApiKey self)" and ct: "configured (tmdbAccessToken self)"
    and f: "getFanartLogo env self x type language = (Inr JNull, t1)"
    and t: "getTmdbLogo env self x type language = (Inr w, t2)"
  shows "fst (getLogo env self c now id' type language) = (Inr w, ParseExternalId id' # t1 @ t2)"
proof -
  have fs: "fanart_step env self x type language = (Inr JNull, t1)"
    using cf f by (simp add: fanart_step_def)
  have ts: "tmdb_step env self x type language = (Inr w, t2)"
    using ct t by (simp add: tmdb_step_def)
  have "(if truthy (Some w) then w else JNull) = w"
    using tmdb_value_fix[of env self x type language w] t by simp
  then show ?thesis
    unfolding getLogo_parsed[OF miss parsed fs ts]
    by (cases "truthy (Some w)") auto
qed

lemma getLogo_url:
  assumes urls: "fanart_urls_are_strings env"
    and cached: "\<forall>v. cache_get c now (logoCacheKey id' type language) = Some v \<longrightarrow> v = JNull \<or> is_url v"
    and res: "fst (fst (getLogo env self c now id' type language)) = Inr v"
  shows "v = JNull \<or> is_url v"
proof (cases "cache_get c now (logoCacheKey id' type language)")
  case (Some u)
  with res have "u = v" by (simp add: getLogo_hit)
  with cached Some show ?thesis by simp
next
  case None
  show ?thesis
  proof (cases "parseExternalId id'")
    case None
    with res getLogo_unparseable[OF \<open>cache_get c now (logoCacheKey id' type language) = None\<close> None]
    show ?thesis by simp
  next
    case (Some x)
    obtain logo t1 where f: "fanart_step env self x type language = (Inr logo, t1)"
      using fanart_step_resolves by blast
    obtain logo2 t2 where t: "tmdb_step env self x type language = (Inr logo2, t2)"
      using tmdb_step_resolves by blast
    have l1: "logo = JNull \<or> is_url logo"
      using f yieldsD[OF getFanartLogo_url[OF urls], of self x type language logo]
      by (cases "configured (fanartApiKey self)") (simp_all add: fanart_step_def io_return_def)
    have l2: "logo2 = JNull \<or> is_url logo2"
      using t yieldsD[OF getTmdbLogo_yields, of env self x type language logo2]
      by (cases "configured (tmdbAccessToken self)") (simp_all add: tmdb_step_def io_return_def)
    from res l1 l2 show ?thesis
      unfolding getLogo_parsed[OF \<open>cache_get c now (logoCacheKey id' type language) = None\<close> Some f t]
      by (auto split: if_splits)
  qed
qed

lemma getPosterUrl_url:
  assumes typed: "\<forall>q u tq. (rpdb self = Some q \<or> fanart self = Some q) \<longrightarrow>
              q type id' = (Inr u, tq) \<longrightarrow> u = JNull \<or> (\<exists>s. u = JStr s)"
    and res: "fst (ArtworkProvider_getPosterUrl self type id') = Inr v"
  shows "v = JNull \<or> is_url v"
proof (cases "v = JNull")
  case True
  then show ?thesis by simp
next
  case False
  from getPosterUrl_value[OF res False]
  obtain q tq where tr: "truthy (Some v)"
    and q: "rpdb self = Some q \<or> fanart self = Some q" "q type id' = (Inr v, tq)"
    by blast
  from typed q False obtain s where "v = JStr s" by blast
  with tr show ?thesis by (simp add: is_url_def)
qed

text \<open>
  C4 (as amended). \<open>getPosterUrl\<close> and \<open>getLogo\<close> resolve for every input,
  provider behaviour, network and cache: they never reject. The provider methods of
  \<open>LogoService\<close> catch their own exceptions: a request or a response body that throws
  makes the Fanart.tv lookup answer \<open>null\<close>, and \<open>getLogo\<close> goes on to TMDB,
  whose answer is the result. In \<open>getPosterUrl\<close> an exception of RPDB is caught,
  Fanart.tv is invoked, and its value (or \<open>null\<close>) is the result. A result of
  \<open>getPosterUrl\<close> other than \<open>null\<close> is a truthy value a provider returned.
  That a result is a URL string rests on the providers: for \<open>getLogo\<close> it is one
  or \<open>null\<close> whenever the \<open>url\<close> fields of the Fanart.tv responses are
  strings and the cache holds URLs or \<open>null\<close>, and for \<open>getPosterUrl\<close>
  whenever what the providers return is a string or \<open>null\<close>.
\<close>

theorem lookups_never_reject:
  "(\<exists>v. fst (ArtworkProvider_getPosterUrl artwork type id') = Inr v) \<and>
   (\<exists>v. fst (fst (getLogo env self c now id' type language)) = Inr v) \<and>
   (\<exists>v. fst (getFanartLogo env self x type language) = Inr v) \<and>
   (\<exists>v. fst (getTmdbLogo env self x type language) = Inr v) \<and>
   (\<exists>v. fst (convertToTmdbId env self x type) = Inr v) \<and>
   (fanartLogoRequest self x type = Some (endpoint, k) \<longrightarrow>
      makeRequest env endpoint 10000 [] False = Inl e \<longrightarrow>
      getFanartLogo env self x type language = (Inr JNull, [HttpRequest endpoint])) \<and>
   (fanartLogoRequest self x type = Some (endpoint, k) \<longrightarrow>
      makeRequest env endpoint 10000 [] False = Inr r \<longrightarrow> response_ok r \<longrightarrow> json_body r = Inl e \<longrightarrow>
      getFanartLogo env self x type language = (Inr JNull, [HttpRequest endpoint])) \<and>
   (cache_get c now (logoCacheKey id' type language) = None \<longrightarrow>
      parseExternalId id' = Some x \<longrightarrow>
      configured (fanartApiKey self) \<longrightarrow> configured (tmdbAccessToken self) \<longrightarrow>
      getFanartLogo env self x type language = (Inr JNull, t1) \<longrightarrow>
      getTmdbLogo env self x type language = (Inr w, t2) \<longrightarrow>
      fst (getLogo env self c now id' type language) = (Inr w, ParseExternalId id' # t1 @ t2)) \<and>
   (rpdb artwork = Some p \<longrightarrow> p type id' = (Inl e, t) \<longrightarrow>
      fanart artwork = Some f \<longrightarrow> f type id' = (res, t3) \<longrightarrow>
      ArtworkProvider_getPosterUrl artwork type id' =
        (Inr (case res of Inl e' \<Rightarrow> JNull | Inr u \<Rightarrow> if truthy (Some u) then u else JNull),
         RpdbGetPosterUrl type id' # t @ FanartGetPosterUrl type id' # t3)) \<and>
   (fst (ArtworkProvider_getPosterUrl artwork type id') = Inr v \<longrightarrow> v \<noteq> JNull \<longrightarrow>
      truthy (Some v) \<and>
      (\<exists>q tq. (rpdb artwork = Some q \<or> fanart artwork = Some q) \<and> q type id' = (Inr v, tq))) \<and>
   (fanart_urls_are_strings env \<longrightarrow>
      (\<forall>u. cache_get c now (logoCacheKey id' type language) = Some u \<longrightarrow> u = JNull \<or> is_url u) \<longrightarrow>
      fst (fst (getLogo env self c now id' type language)) = Inr v \<longrightarrow>
      v = JNull \<or> is_url v) \<and>
   ((\<forall>q u tq. (rpdb artwork = Some q \<or> fanart artwork = Some q) \<longrightarrow>
              q type id' = (Inr u, tq) \<longrightarrow> u = JNull \<or> (\<exists>s. u = JStr s)) \<longrightarrow>
      fst (ArtworkProvider_getPosterUrl artwork type id') = Inr v \<longrightarrow>
      v = JNull \<or> is_url v)"
proof -
  have c1: "\<exists>v. fst (ArtworkProvider_getPosterUrl artwork type id') = Inr v"
    by (rule getPosterUrl_resolves)
  have c2: "\<exists>v. fst (fst (getLogo env self c now id' type language)) = Inr v"
    by (rule getLogo_resolves)
  have c3: "\<exists>v. fst (getFanartLogo env self x type language) = Inr v"
    by (rule getFanartLogo_resolves)
  have c4: "\<exists>v. fst (getTmdbLogo env self x type language) = Inr v"
    by (rule getTmdbLogo_resolves)
  have c5: "\<exists>v. fst (convertToTmdbId env self x type) = Inr v"
    by (rule convertToTmdbId_resolves)
  have c6: "fanartLogoRequest self x type = Some (endpoint, k) \<longrightarrow>
      makeRequest env endpoint 10000 [] False = Inl e \<longrightarrow>
      getFanartLogo env self x type language = (Inr JNull, [HttpRequest endpoint])"
    using getFanartLogo_request_throws by blast
  have c7: "fanartLogoRequest self x type = Some (endpoint, k) \<longrightarrow>
      makeRequest env endpoint 10000 [] False = Inr r \<longrightarrow> response_ok r \<longrightarrow> json_body r = Inl e \<longrightarrow>
      getFanartLogo env self x type language = (Inr JNull, [HttpRequest endpoint])"
    using getFanartLogo_json_throws by blast
  have c8: "cache_get c now (logoCacheKey id' type language) = None \<longrightarrow>
      parseExternalId id' = Some x \<longrightarrow>
      configured (fanartApiKey self) \<longrightarrow> configured (tmdbAccessToken self) \<longrightarrow>
      getFanartLogo env self x type language = (Inr JNull, t1) \<longrightarrow>
      getTmdbLogo env self x type language = (Inr w, t2) \<longrightarrow>
      fst (getLogo env self c now id' type language) = (Inr w, ParseExternalId id' # t1 @ t2)"
    using getLogo_fallback by blast
  have c9: "rpdb artwork = Some p \<longrightarrow> p type id' = (Inl e, t) \<longrightarrow>
      fanart artwork = Some f \<longrightarrow> f type id' = (res, t3) \<longrightarrow>
      ArtworkProvider_getPosterUrl artwork type id' =
        (Inr (case res of Inl e' \<Rightarrow> JNull | Inr u \<Rightarrow> if truthy (Some u) then u else JNull),
         RpdbGetPosterUrl type id' # t @ FanartGetPosterUrl type id' # t3)"
    using getPosterUrl_rpdb_throws by blast
  have c10: "fst (ArtworkProvider_getPosterUrl artwork type id') = Inr v \<longrightarrow> v \<noteq> JNull \<longrightarrow>
      truthy (Some v) \<and>
      (\<exists>q tq. (rpdb artwork = Some q \<or> fanart artwork = Some q) \<and> q type id' = (Inr v, tq))"
    using getPosterUrl_value by blast
  have c11: "fanart_urls_are_strings env \<longrightarrow>
      (\<forall>u. cache_get c now (logoCacheKey id' type language) = Some u \<longrightarrow> u = JNull \<or> is_url u) \<longrightarrow>
      fst (fst (getLogo env self c now id' type language)) = Inr v \<longrightarrow>
      v = JNull \<or> is_url v"
    using getLogo_url by blast
  have c12: "(\<forall>q u tq. (rpdb artwork = Some q \<or> fanart artwork = Some q) \<longrightarrow>
              q type id' = (Inr u, tq) \<longrightarrow> u = JNull \<or> (\<exists>s. u = JStr s)) \<longrightarrow>
      fst (ArtworkProvider_getPosterUrl artwork type id') = Inr v \<longrightarrow>
      v = JNull \<or> is_url v"
    using getPosterUrl_url by blast
  show ?thesis
    apply (rule conjI, rule c1)
    apply (rule conjI, rule c2)
    apply (rule conjI, rule c3)
    apply (rule conjI, rule c4)
    apply (rule conjI, rule c5)
    apply (rule conjI, rule c6)
    apply (rule conjI, rule c7)
    apply (rule conjI, rule c8)
    apply (rule conjI, rule c9)
    apply (rule conjI, rule c10)
    apply (rule conjI, rule c11)
    apply (rule c12)
    done
qed

lemma offline_tmdb:
  "getTmdbLogo offline both_keys \<lparr>idType = tmdb, idValue = ''550''\<rparr> ''movie'' ''en''
     = (Inr JNull, [HttpRequest ''https://api.themoviedb.org/3/movie/550/images''])"
  by (simp add: getTmdbLogo_def io_defs offline_def both_keys_def key_string_def)

lemma offline_fanart:
  "getFanartLogo offline both_keys \<lparr>idType = tmdb, idValue = ''550''\<rparr> ''movie'' ''en''
     = (Inr JNull, [HttpRequest ''https://webservice.fanart.tv/v3/movies/550?api_key=KEY''])"
  by (simp add: getFanartLogo_def fanartLogoRequest_def io_defs offline_def both_keys_def key_string_def)

lemma parse_tmdb_550: "parseExternalId ''tmdb-550'' = Some \<lparr>idType = tmdb, idValue = ''550''\<rparr>"
  by (simp add: parseExternalId_def regex_eval)

lemma empty_cache_miss: "cache_get empty_cache now k = None"
  by (simp add: cache_get_def empty_cache_def)

lemma urls_typed_example: "fanart_urls_are_strings (answering 200 logo_body)"
  by (auto simp: fanart_urls_are_strings_def answering_def logo_body_def split: if_splits)

lemma online_fanart:
  "getFanartLogo (answering 200 logo_body) both_keys \<lparr>idType = tmdb, idValue = ''550''\<rparr>
      ''movie'' ''en''
     = (Inr (JStr ''https://assets.fanart.tv/logo.png''),
        [HttpRequest ''https://webservice.fanart.tv/v3/movies/550?api_key=KEY''])"
  by (simp add: both_keys_def getFanartLogo_def
        fanartLogoRequest_def key_string_def io_defs answering_def response_ok_def logo_body_def
        is_array_def array_elems_def selectBestLogo_def opt_prop_def js_or_def null_of_def)

theorem lookups_never_reject_witness:
  "cache_get (empty_cache :: json cache) 0 (logoCacheKey ''tmdb-550'' ''movie'' ''en'') = None \<and>
   parseExternalId ''tmdb-550'' = Some \<lparr>idType = tmdb, idValue = ''550''\<rparr> \<and>
   configured (fanartApiKey both_keys) \<and> configured (tmdbAccessToken both_keys) \<and>
   fst (getLogo offline both_keys empty_cache 0 ''tmdb-550'' ''movie'' ''en'')
     = (Inr JNull,
        [ParseExternalId ''tmdb-550'',
         HttpRequest ''https://webservice.fanart.tv/v3/movies/550?api_key=KEY'',
         HttpRequest ''https://api.themoviedb.org/3/movie/550/images'']) \<and>
   ArtworkProvider_getPosterUrl
     \<lparr>rpdb = Some provider_throws, fanart = Some (provider_url ''https://fanart/p.jpg'')\<rparr>
     ''movie'' ''tt0111161''
     = (Inr (JStr ''https://fanart/p.jpg''),
        [RpdbGetPosterUrl ''movie'' ''tt0111161'', FanartGetPosterUrl ''movie'' ''tt0111161'']) \<and>
   fanart_urls_are_strings (answering 200 logo_body) \<and>
   fst (fst (getLogo (answering 200 logo_body) both_keys empty_cache 0 ''tmdb-550'' ''movie'' ''en''))
     = Inr (JStr ''https://assets.fanart.tv/logo.png'') \<and>
   is_url (JStr ''https://assets.fanart.tv/logo.png'')"
proof -
  have c1: "configured (fanartApiKey both_keys)" "configured (tmdbAccessToken both_keys)"
    by (simp_all add: configured_def both_keys_def)
  have m: "cache_get (empty_cache :: json cache) 0 (logoCacheKey ''tmdb-550'' ''movie'' ''en'') = None"
    by (rule empty_cache_miss)
  have a: "fst (getLogo offline both_keys empty_cache 0 ''tmdb-550'' ''movie'' ''en'')
     = (Inr JNull,
        [ParseExternalId ''tmdb-550'',
         HttpRequest ''https://webservice.fanart.tv/v3/movies/550?api_key=KEY'',
         HttpRequest ''https://api.themoviedb.org/3/movie/550/images''])"
    using lookups_never_reject[where env = offline and self = both_keys and c = empty_cache
        and now = 0 and id' = "''tmdb-550''" and type = "''movie''" and language = "''en''"
        and x = "\<lparr>idType = tmdb, idValue = ''550''\<rparr>" and w = JNull
        and ?t1.0 = "[HttpRequest ''https://webservice.fanart.tv/v3/movies/550?api_key=KEY'']"
        and ?t2.0 = "[HttpRequest ''https://api.themoviedb.org/3/movie/550/images'']",
        THEN conjunct2, THEN conjunct2, THEN conjunct2, THEN conjunct2, THEN conjunct2,
        THEN conjunct2, THEN conjunct2, THEN conjunct1, rule_format,
        OF m parse_tmdb_550 c1 offline_fanart offline_tmdb]
    by simp
  have b: "ArtworkProvider_getPosterUrl
     \<lparr>rpdb = Some provider_throws, fanart = Some (provider_url ''https://fanart/p.jpg'')\<rparr>
     ''movie'' ''tt0111161''
     = (Inr (JStr ''https://fanart/p.jpg''),
        [RpdbGetPosterUrl ''movie'' ''tt0111161'', FanartGetPosterUrl ''movie'' ''tt0111161''])"
    using lookups_never_reject[where
        artwork = "\<lparr>rpdb = Some provider_throws, fanart = Some (provider_url ''https://fanart/p.jpg'')\<rparr>"
        and type = "''movie''" and id' = "''tt0111161''" and p = provider_throws
        and e = "Thrown ''provider failed''" and t = "[]"
        and f = "provider_url ''https://fanart/p.jpg''"
        and res = "Inr (JStr ''https://fanart/p.jpg'')" and ?t3.0 = "[]"]
    by (simp add: provider_throws_def provider_url_def)
  have ev: "fst (fst (getLogo (answering 200 logo_body) both_keys empty_cache 0 ''tmdb-550'' ''movie'' ''en''))
     = Inr (JStr ''https://assets.fanart.tv/logo.png'')"
    using m parse_tmdb_550 online_fanart
    by (simp add: getLogo_def configured_def both_keys_def)
  have ch: "\<And>u. cache_get (empty_cache :: json cache) 0 (logoCacheKey ''tmdb-550'' ''movie'' ''en'') = Some u
      \<Longrightarrow> u = JNull \<or> is_url u"
    by (simp add: m)
  have "JStr ''https://assets.fanart.tv/logo.png'' = JNull \<or> is_url (JStr ''https://assets.fanart.tv/logo.png'')"
    using lookups_never_reject[where env = "answering 200 logo_body" and self = both_keys
        and c = empty_cache and now = 0 and id' = "''tmdb-550''" and type = "''movie''"
        and language = "''en''" and v = "JStr ''https://assets.fanart.tv/logo.png''",
        THEN conjunct2, THEN conjunct2, THEN conjunct2, THEN conjunct2, THEN conjunct2,
        THEN conjunct2, THEN conjunct2, THEN conjunct2, THEN conjunct2, THEN conjunct2,
        THEN conjunct1, rule_format, OF urls_typed_example ch ev] .
  then have u: "is_url (JStr ''https://assets.fanart.tv/logo.png'')" by simp
  from m parse_tmdb_550 c1 a b urls_typed_example ev u show ?thesis by (intro conjI)
qed

text \<open>
  C4 as stated fails in its "URL string or null": the value of a \<open>url\<close> field is
  passed on as it is. When the only logo of the Fanart.tv response has the number 5
  as its \<open>url\<close>, \<open>getLogo\<close> resolves to the number 5 and caches it; when the only
  poster has the number 7, \<open>getPosterUrl\<close> of \<open>fanart.ts\<close> resolves to 7,
  and so does the orchestrator with that client as its Fanart.tv provider.
\<close>

theorem getLogo_numeric_url_counterexample:
  "fst (getLogo (answering 200 numeric_logo_body) both_keys empty_cache 0 ''tmdb-550'' ''movie'' ''en'')
     = (Inr (JNum 5),
        [ParseExternalId ''tmdb-550'',
         HttpRequest ''https://webservice.fanart.tv/v3/movies/550?api_key=KEY'']) \<and>
   cache_get (snd (getLogo (answering 200 numeric_logo_body) both_keys empty_cache 0
                     ''tmdb-550'' ''movie'' ''en'')) 1 (logoCacheKey ''tmdb-550'' ''movie'' ''en'')
     = Some (JNum 5) \<and>
   FanartTV_getPosterUrl (answering 200 numeric_poster_body) ''KEY'' ''movie'' ''tt0111161''
     = (Inr (JNum 7), [HttpRequest ''https://webservice.fanart.tv/v3/movies/tt0111161?api_key=KEY'']) \<and>
   ArtworkProvider_getPosterUrl
     \<lparr>rpdb = None,
      fanart = Some (FanartTV_getPosterUrl (answering 200 numeric_poster_body) ''KEY'')\<rparr>
     ''movie'' ''tt0111161''
     = (Inr (JNum 7),
        [FanartGetPosterUrl ''movie'' ''tt0111161'',
         HttpRequest ''https://webservice.fanart.tv/v3/movies/tt0111161?api_key=KEY'']) \<and>
   \<not> is_url (JNum 5) \<and> \<not> is_url (JNum 7) \<and> JNum 5 \<noteq> JNull \<and> JNum 7 \<noteq> JNull"
proof -
  have f: "getFanartLogo (answering 200 numeric_logo_body) both_keys \<lparr>idType = tmdb, idValue = ''550''\<rparr>
      ''movie'' ''en''
     = (Inr (JNum 5), [HttpRequest ''https://webservice.fanart.tv/v3/movies/550?api_key=KEY''])"
    by (simp add: both_keys_def getFanartLogo_def
        fanartLogoRequest_def key_string_def io_defs answering_def response_ok_def numeric_logo_body_def
        is_array_def array_elems_def selectBestLogo_def opt_prop_def js_or_def null_of_def)
  have m: "cache_get (empty_cache :: json cache) 0 (logoCacheKey ''tmdb-550'' ''movie'' ''en'') = None"
    by (rule empty_cache_miss)
  have a: "getLogo (answering 200 numeric_logo_body) both_keys empty_cache 0 ''tmdb-550'' ''movie'' ''en''
     = ((Inr (JNum 5),
        [ParseExternalId ''tmdb-550'',
         HttpRequest ''https://webservice.fanart.tv/v3/movies/550?api_key=KEY'']),
        cache_set empty_cache 0 (logoCacheKey ''tmdb-550'' ''movie'' ''en'') (JNum 5) LOGO_CACHE_TTL)"
    using m parse_tmdb_550 f
    by (simp add: getLogo_def configured_def both_keys_def io_defs)
  have p: "FanartTV_getPosterUrl (answering 200 numeric_poster_body) ''KEY'' ''movie'' ''tt0111161''
     = (Inr (JNum 7), [HttpRequest ''https://webservice.fanart.tv/v3/movies/tt0111161?api_key=KEY''])"
    by (simp add: FanartTV_getPosterUrl_def parseImdbId_def regex_eval fanartPosterEndpoint_def
        io_defs answering_def response_ok_def numeric_poster_body_def opt_prop_def to_number_def
        is_array_def array_elems_def prop_of_def js_or_def null_of_def)
  have o: "ArtworkProvider_getPosterUrl
     \<lparr>rpdb = None,
      fanart = Some (FanartTV_getPosterUrl (answering 200 numeric_poster_body) ''KEY'')\<rparr>
     ''movie'' ''tt0111161''
     = (Inr (JNum 7),
        [FanartGetPosterUrl ''movie'' ''tt0111161'',
         HttpRequest ''https://webservice.fanart.tv/v3/movies/tt0111161?api_key=KEY''])"
    by (simp add: ArtworkProvider_getPosterUrl_def p io_defs)
  show ?thesis
    unfolding a p o
    by (simp add: is_url_def cache_get_def cache_set_def LOGO_CACHE_TTL_def)
qed



end
